theory Spec2Isabelle
  imports Main "HOL-Library.AList"
begin

section \<open>Python values, dictionaries and exceptions\<close>

text \<open>
  The authentication layer of the backend (\<^verbatim>\<open>app/core/auth.py\<close>, \<^verbatim>\<open>app/core/auth_b2c.py\<close>,
  \<^verbatim>\<open>app/models/user.py\<close>, \<^verbatim>\<open>app/core/config.py\<close>) works on dynamically typed values:
  claim dictionaries, JSON documents, datetimes. They are embedded as one datatype. A
  dictionary is an association list read with \<open>map_of\<close>; a datetime is its number of
  microseconds since the epoch (UTC), the resolution of Python's \<^verbatim>\<open>datetime\<close>. A character
  of a string is a code point below 256; floating-point values are left out of the value
  type.
\<close>

datatype pyval =
    PNone
  | PBool bool
  | PInt int
  | PStr string
  | PList "pyval list"
  | PDict "(string \<times> pyval) list"
  | PDatetime int
  | PCoroutine

type_synonym pydict = "(string \<times> pyval) list"

text \<open>\<^verbatim>\<open>d.get(k)\<close> and \<^verbatim>\<open>d.get(k, default)\<close>.\<close>

definition get :: "pydict \<Rightarrow> string \<Rightarrow> pyval" where
  "get d k = (case map_of d k of None \<Rightarrow> PNone | Some v \<Rightarrow> v)"

definition get_default :: "pydict \<Rightarrow> string \<Rightarrow> pyval \<Rightarrow> pyval" where
  "get_default d k dflt = (case map_of d k of None \<Rightarrow> dflt | Some v \<Rightarrow> v)"

text \<open>Truth value testing, as \<^verbatim>\<open>if x\<close>, \<^verbatim>\<open>not x\<close> and \<^verbatim>\<open>x or y\<close> use it.\<close>

fun truthy :: "pyval \<Rightarrow> bool" where
  "truthy PNone = False"
| "truthy (PBool b) = b"
| "truthy (PInt i) = (i \<noteq> 0)"
| "truthy (PStr s) = (s \<noteq> [])"
| "truthy (PList xs) = (xs \<noteq> [])"
| "truthy (PDict kvs) = (kvs \<noteq> [])"
| "truthy (PDatetime t) = True"
| "truthy PCoroutine = True"

definition py_or :: "pyval \<Rightarrow> pyval \<Rightarrow> pyval" where
  "py_or a b = (if truthy a then a else b)"

text \<open>
  What \<^verbatim>\<open>json.dumps\<close> accepts: a datetime or a coroutine object anywhere in a value makes it
  raise \<^verbatim>\<open>TypeError\<close>.
\<close>

fun json_ok :: "pyval \<Rightarrow> bool" where
  "json_ok (PList xs) = list_all json_ok xs"
| "json_ok (PDict kvs) = list_all json_ok (map snd kvs)"
| "json_ok (PDatetime t) = False"
| "json_ok PCoroutine = False"
| "json_ok v = True"

text \<open>
  Exceptions are values. \<open>HTTPException\<close> carries the status code, the detail and the
  headers. The classes of python-jose (\<^verbatim>\<open>auth.py\<close>) and of PyJWT (\<^verbatim>\<open>auth_b2c.py\<close>) are kept
  apart; the two predicates below are the subclass tests that the \<^verbatim>\<open>except\<close> clauses of the
  source perform.
\<close>

datatype exn =
    HTTPException nat string "(string \<times> string) list"
  | JWTError
  | JWTClaimsError
  | JoseExpiredSignatureError
  | JWSError
  | DecodeError
  | InvalidTokenError
  | InvalidSignatureError
  | ExpiredSignatureError
  | InvalidAudienceError
  | InvalidIssuerError
  | InvalidAlgorithmError
  | MissingRequiredClaimError
  | InvalidKeyError
  | ImmatureSignatureError
  | InvalidIssuedAtError
  | ValidationError
  | ValueError
  | AttributeError
  | TypeError
  | KeyError
  | IndexError
  | OverflowError

text \<open>\<^verbatim>\<open>except JWTError\<close> of python-jose: the class and its two subclasses.\<close>

fun is_JWTError :: "exn \<Rightarrow> bool" where
  "is_JWTError JWTError = True"
| "is_JWTError JWTClaimsError = True"
| "is_JWTError JoseExpiredSignatureError = True"
| "is_JWTError e = False"

text \<open>\<^verbatim>\<open>except jwt.InvalidTokenError\<close> of PyJWT: the class and its subclasses.\<close>

fun is_InvalidTokenError :: "exn \<Rightarrow> bool" where
  "is_InvalidTokenError DecodeError = True"
| "is_InvalidTokenError InvalidTokenError = True"
| "is_InvalidTokenError InvalidSignatureError = True"
| "is_InvalidTokenError ExpiredSignatureError = True"
| "is_InvalidTokenError InvalidAudienceError = True"
| "is_InvalidTokenError InvalidIssuerError = True"
| "is_InvalidTokenError InvalidAlgorithmError = True"
| "is_InvalidTokenError MissingRequiredClaimError = True"
| "is_InvalidTokenError ImmatureSignatureError = True"
| "is_InvalidTokenError InvalidIssuedAtError = True"
| "is_InvalidTokenError e = False"

fun is_HTTPException :: "exn \<Rightarrow> bool" where
  "is_HTTPException (HTTPException code detail headers) = True"
| "is_HTTPException e = False"

section \<open>Configuration (\<^verbatim>\<open>app/core/config.py\<close>)\<close>

record settings =
  secret_key :: string
  algorithm :: string
  access_token_expire_minutes :: int
  azure_b2c_tenant_name :: string
  azure_b2c_client_id :: string
  azure_b2c_policy_name :: string

text \<open>The defaults of class \<^verbatim>\<open>Settings\<close>; the environment may override each field.\<close>

definition default_settings :: settings where
  "default_settings =
     \<lparr> secret_key = ''your-secret-key-here'',
       algorithm = ''HS256'',
       access_token_expire_minutes = 30,
       azure_b2c_tenant_name = ''your-b2c-tenant-name'',
       azure_b2c_client_id = ''your-b2c-client-id'',
       azure_b2c_policy_name = ''B2C_1_signupsignin'' \<rparr>"

section \<open>Time\<close>

text \<open>
  \<^verbatim>\<open>datetime.utcnow()\<close> is a parameter \<open>now\<close> of every function that reads the clock. A
  \<^verbatim>\<open>timedelta\<close> is a number of microseconds. \<^verbatim>\<open>timegm(d.utctimetuple())\<close> drops the
  microseconds of \<open>d\<close>: it is the whole second \<open>d\<close> lies in. A datetime lies between
  \<^verbatim>\<open>datetime.min\<close> (year 1) and \<^verbatim>\<open>datetime.max\<close> (year 9999) and a timedelta between
  \<^verbatim>\<open>timedelta.min\<close> and \<^verbatim>\<open>timedelta.max\<close>; an addition or a constructor call that leaves the
  range raises \<^verbatim>\<open>OverflowError\<close>.
\<close>

definition timegm :: "int \<Rightarrow> int" where
  "timegm d = d div 1000000"

definition datetime_min :: int where
  "datetime_min = - 62135596800000000"

definition datetime_max :: int where
  "datetime_max = 253402300799999999"

definition timedelta_min :: int where
  "timedelta_min = - 86399999913600000000"

definition timedelta_max :: int where
  "timedelta_max = 86399999999999999999"

text \<open>\<^verbatim>\<open>d + delta\<close> for a datetime and a timedelta.\<close>

definition datetime_add :: "int \<Rightarrow> int \<Rightarrow> exn + int" where
  "datetime_add d delta =
     (if datetime_min \<le> d + delta \<and> d + delta \<le> datetime_max then Inr (d + delta)
      else Inl OverflowError)"

text \<open>\<^verbatim>\<open>timedelta(minutes=m)\<close>.\<close>

definition timedelta_minutes :: "int \<Rightarrow> exn + int" where
  "timedelta_minutes m =
     (if timedelta_min \<le> m * 60000000 \<and> m * 60000000 \<le> timedelta_max
      then Inr (m * 60000000)
      else Inl OverflowError)"

section \<open>Bearer tokens and library behaviour\<close>

text \<open>
  A bearer string is modelled symbolically: it is either not a compact JWS at all, or it
  is a header, a payload and a signature. A signature records the algorithm and key that
  produced it, so that verifying it under a key succeeds exactly when that key made it
  (ideal cryptography): \<open>HMACSig alg key\<close> for the keyed-hash algorithms, \<open>RSASig k\<close> for
  the private key whose public half is \<open>RSAPublicKey k\<close>, \<open>NoSig\<close> for bytes that are no
  valid signature of the header and payload under any key.
\<close>

datatype signature = HMACSig string string | RSASig string | NoSig

datatype token = NotJWS string | JWS pydict pyval signature

datatype public_key = RSAPublicKey string

text \<open>
  A stored password hash is modelled symbolically as well: either a well-formed bcrypt hash,
  which records its salt and the password it was computed from, or a string that
  \<^verbatim>\<open>CryptContext(schemes=["bcrypt"])\<close> cannot identify or parse as a bcrypt hash.
\<close>

datatype pwhash = BcryptHash string string | NotAHash string

text \<open>
  The libraries the source calls (python-jose, PyJWT, passlib, pydantic) are not part of the
  repository. Where a call of theirs is modelled below, the model follows the library; what
  is not modelled is a field of the record \<open>pylib\<close>, a parameter of the functions that
  depend on it, so that a theorem stated for \<open>L\<close> holds whatever the library does there:
  \<^item> \<open>validate_email\<close>: pydantic's \<^verbatim>\<open>EmailStr\<close>, the normalised address or \<open>None\<close> for an
    invalid one;
  \<^item> \<open>format_value\<close>: the text an f-string produces for a value that is not a string;
  \<^item> \<open>int_of_str\<close>: Python's \<^verbatim>\<open>int(s)\<close> on a string, \<open>None\<close> for \<^verbatim>\<open>ValueError\<close>;
  \<^item> \<open>hmac_secret_ok\<close>: whether python-jose takes the string as it is for the HMAC secret,
    when signing and when checking a signature (it refuses a secret that looks like a PEM
    or SSH key, and before checking it parses a secret that is a JSON document);
  \<^item> \<open>other_supported\<close>, \<open>other_sign\<close>, \<open>other_verify\<close>: python-jose for an algorithm that is
    not an HMAC algorithm, or for a secret it does not take as it is: whether the algorithm name
    is supported, the signature made with the key (\<open>None\<close> when making it fails), and the
    outcome of checking a signature (an exception that escapes, or whether it matches);
  \<^item> \<open>bcrypt_other_verify\<close>, \<open>bcrypt_other_hash\<close>: passlib's bcrypt for a password that has a
    NUL byte or more than 72 bytes;
  \<^item> \<open>rsa_from_jwk\<close>, \<open>pyjwt_decode\<close>: PyJWT's \<^verbatim>\<open>RSAAlgorithm.from_jwk\<close> and \<^verbatim>\<open>jwt.decode\<close>.
\<close>

record pylib =
  validate_email :: "string \<Rightarrow> string option"
  format_value :: "pyval \<Rightarrow> string"
  int_of_str :: "string \<Rightarrow> int option"
  hmac_secret_ok :: "string \<Rightarrow> bool"
  other_supported :: "string \<Rightarrow> bool"
  other_sign :: "string \<Rightarrow> string \<Rightarrow> signature option"
  other_verify :: "string \<Rightarrow> string \<Rightarrow> signature \<Rightarrow> exn + bool"
  bcrypt_other_verify :: "string \<Rightarrow> string \<Rightarrow> string \<Rightarrow> exn + bool"
  bcrypt_other_hash :: "string \<Rightarrow> string \<Rightarrow> exn + pwhash"
  rsa_from_jwk :: "pyval \<Rightarrow> exn + public_key"
  pyjwt_decode ::
    "token \<Rightarrow> public_key \<Rightarrow> string list \<Rightarrow> string \<Rightarrow> string \<Rightarrow> int \<Rightarrow> exn + pydict"

section \<open>The python-jose calls of \<^verbatim>\<open>auth.py\<close>\<close>

type_synonym heap = "pydict list"

text \<open>
  Dictionaries that a function receives by reference live in a heap: an address is an
  index, \<^verbatim>\<open>d.copy()\<close> allocates a new dictionary with the same items, an item assignment
  changes the dictionary at its address.
\<close>

definition dict_copy :: "heap \<Rightarrow> nat \<Rightarrow> heap \<times> nat" where
  "dict_copy h r = (h @ [h ! r], length h)"

definition dict_setitem :: "heap \<Rightarrow> nat \<Rightarrow> string \<Rightarrow> pyval \<Rightarrow> heap" where
  "dict_setitem h r k v = h[r := AList.update k v (h ! r)]"

definition hmac_algorithms :: "string list" where
  "hmac_algorithms = [''HS256'', ''HS384'', ''HS512'']"

definition alg_supported :: "pylib \<Rightarrow> string \<Rightarrow> bool" where
  "alg_supported L alg = (alg \<in> set hmac_algorithms \<or> other_supported L alg)"

text \<open>
  Signing and checking a signature. For an HMAC algorithm and a secret the library
  accepts, the signature is \<open>HMACSig alg key\<close> and the check succeeds on that signature
  only; every other case is the library's.
\<close>

definition jose_sign :: "pylib \<Rightarrow> string \<Rightarrow> string \<Rightarrow> signature option" where
  "jose_sign L alg key =
     (if alg \<in> set hmac_algorithms \<and> hmac_secret_ok L key then Some (HMACSig alg key)
      else other_sign L alg key)"

definition jose_verify :: "pylib \<Rightarrow> string \<Rightarrow> string \<Rightarrow> signature \<Rightarrow> exn + bool" where
  "jose_verify L alg key sg =
     (if alg \<in> set hmac_algorithms \<and> hmac_secret_ok L key then Inr (sg = HMACSig alg key)
      else other_verify L alg key sg)"

text \<open>
  \<^verbatim>\<open>jose.jwt.encode(claims, key, algorithm)\<close>. It first replaces a datetime under \<^verbatim>\<open>exp\<close>,
  \<^verbatim>\<open>iat\<close> or \<^verbatim>\<open>nbf\<close> by its whole second, in the dictionary it was given. Then
  \<^verbatim>\<open>jws.sign\<close> refuses an unsupported algorithm (\<^verbatim>\<open>JWSError\<close>), serialises the claims
  (\<^verbatim>\<open>TypeError\<close> for a value \<^verbatim>\<open>json.dumps\<close> does not accept) and signs (\<^verbatim>\<open>JWSError\<close> when that
  fails), in this order.
\<close>

definition convert_time_claim :: "heap \<Rightarrow> nat \<Rightarrow> string \<Rightarrow> heap" where
  "convert_time_claim h r k =
     (case map_of (h ! r) k of
        Some (PDatetime d) \<Rightarrow> dict_setitem h r k (PInt (timegm d))
      | _ \<Rightarrow> h)"

definition jose_encode ::
    "pylib \<Rightarrow> heap \<Rightarrow> nat \<Rightarrow> string \<Rightarrow> string \<Rightarrow> heap \<times> (exn + token)" where
  "jose_encode L h claims key alg =
     (let h' = convert_time_claim (convert_time_claim (convert_time_claim h claims ''exp'')
                 claims ''iat'') claims ''nbf''
      in if \<not> alg_supported L alg then (h', Inl JWSError)
         else if \<not> json_ok (PDict (h' ! claims)) then (h', Inl TypeError)
         else (case jose_sign L alg key of
                 None \<Rightarrow> (h', Inl JWSError)
               | Some sg \<Rightarrow>
                   (h', Inr (JWS [(''alg'', PStr alg), (''typ'', PStr ''JWT'')]
                                 (PDict (h' ! claims)) sg))))"

text \<open>
  \<^verbatim>\<open>int(v)\<close> as the validators of python-jose call it on a claim: the integer, a
  \<^verbatim>\<open>ValueError\<close> (a string that is no number), or a \<^verbatim>\<open>TypeError\<close> (\<open>None\<close>, a list, a
  dictionary: no number and no string).
\<close>

datatype int_result = IntOk int | IntValueError | IntTypeError

definition py_int :: "pylib \<Rightarrow> pyval \<Rightarrow> int_result" where
  "py_int L v =
     (case v of
        PInt i \<Rightarrow> IntOk i
      | PBool b \<Rightarrow> IntOk (if b then 1 else 0)
      | PStr s \<Rightarrow> (case int_of_str L s of Some i \<Rightarrow> IntOk i | None \<Rightarrow> IntValueError)
      | _ \<Rightarrow> IntTypeError)"

definition is_str :: "pyval \<Rightarrow> bool" where
  "is_str v = (case v of PStr s \<Rightarrow> True | _ \<Rightarrow> False)"

text \<open>
  The validators of \<^verbatim>\<open>jose.jwt.decode\<close> for the default options and no audience, issuer,
  subject or access token, in the library's order. The three time claims are converted
  with \<^verbatim>\<open>int\<close> inside \<^verbatim>\<open>try ... except ValueError\<close>: a \<^verbatim>\<open>ValueError\<close> becomes a
  \<^verbatim>\<open>JWTClaimsError\<close>, a \<^verbatim>\<open>TypeError\<close> is not caught. \<open>now_s\<close> is the whole second of the clock.
\<close>

definition validate_iat :: "pylib \<Rightarrow> pydict \<Rightarrow> exn option" where
  "validate_iat L claims =
     (case map_of claims ''iat'' of
        None \<Rightarrow> None
      | Some v \<Rightarrow>
          (case py_int L v of
             IntOk i \<Rightarrow> None
           | IntValueError \<Rightarrow> Some JWTClaimsError
           | IntTypeError \<Rightarrow> Some TypeError))"

definition validate_nbf :: "pylib \<Rightarrow> int \<Rightarrow> pydict \<Rightarrow> exn option" where
  "validate_nbf L now_s claims =
     (case map_of claims ''nbf'' of
        None \<Rightarrow> None
      | Some v \<Rightarrow>
          (case py_int L v of
             IntOk nbf \<Rightarrow> if nbf > now_s then Some JWTClaimsError else None
           | IntValueError \<Rightarrow> Some JWTClaimsError
           | IntTypeError \<Rightarrow> Some TypeError))"

definition validate_exp :: "pylib \<Rightarrow> int \<Rightarrow> pydict \<Rightarrow> exn option" where
  "validate_exp L now_s claims =
     (case map_of claims ''exp'' of
        None \<Rightarrow> None
      | Some v \<Rightarrow>
          (case py_int L v of
             IntOk exp \<Rightarrow> if exp < now_s then Some JoseExpiredSignatureError else None
           | IntValueError \<Rightarrow> Some JWTClaimsError
           | IntTypeError \<Rightarrow> Some TypeError))"

definition validate_aud :: "pydict \<Rightarrow> exn option" where
  "validate_aud claims =
     (case map_of claims ''aud'' of None \<Rightarrow> None | Some v \<Rightarrow> Some JWTClaimsError)"

definition validate_sub :: "pydict \<Rightarrow> exn option" where
  "validate_sub claims =
     (case map_of claims ''sub'' of
        None \<Rightarrow> None
      | Some v \<Rightarrow> if is_str v then None else Some JWTClaimsError)"

definition validate_jti :: "pydict \<Rightarrow> exn option" where
  "validate_jti claims =
     (case map_of claims ''jti'' of
        None \<Rightarrow> None
      | Some v \<Rightarrow> if is_str v then None else Some JWTClaimsError)"

definition validate_at_hash :: "pydict \<Rightarrow> exn option" where
  "validate_at_hash claims =
     (case map_of claims ''at_hash'' of None \<Rightarrow> None | Some v \<Rightarrow> Some JWTClaimsError)"

fun first_error :: "exn option list \<Rightarrow> exn option" where
  "first_error [] = None"
| "first_error (None # rest) = first_error rest"
| "first_error (Some e # rest) = Some e"

definition jose_validate_claims :: "pylib \<Rightarrow> int \<Rightarrow> pydict \<Rightarrow> exn option" where
  "jose_validate_claims L now_s claims =
     first_error [validate_iat L claims, validate_nbf L now_s claims,
                  validate_exp L now_s claims, validate_aud claims, validate_sub claims,
                  validate_jti claims, validate_at_hash claims]"

text \<open>
  \<^verbatim>\<open>jose.jwt.decode(token, key, algorithms=[...])\<close>: a string that is no JWS, a header
  without an allowed algorithm, a signature that does not match and a payload that is no
  JSON object are \<^verbatim>\<open>JWTError\<close>s; then the claims are validated.
\<close>

definition jose_decode ::
    "pylib \<Rightarrow> token \<Rightarrow> string \<Rightarrow> string list \<Rightarrow> int \<Rightarrow> exn + pydict" where
  "jose_decode L tok key algorithms now =
     (case tok of
        NotJWS s \<Rightarrow> Inl JWTError
      | JWS header payload sg \<Rightarrow>
          (case map_of header ''alg'' of
             Some (PStr alg) \<Rightarrow>
               if alg \<notin> set algorithms then Inl JWTError
               else (case jose_verify L alg key sg of
                       Inl e \<Rightarrow> Inl e
                     | Inr matches \<Rightarrow>
                         if \<not> matches then Inl JWTError
                         else (case payload of
                                 PDict claims \<Rightarrow>
                                   (case jose_validate_claims L (timegm now) claims of
                                      Some e \<Rightarrow> Inl e
                                    | None \<Rightarrow> Inr claims)
                               | _ \<Rightarrow> Inl JWTError))
           | _ \<Rightarrow> Inl JWTError))"

section \<open>The local authenticator (\<^verbatim>\<open>app/core/auth.py\<close>)\<close>

text \<open>
  \<^verbatim>\<open>create_access_token(data, expires_delta=None)\<close>. \<open>data\<close> is the address of the caller's
  dictionary; \<open>expires_delta\<close> is \<open>None\<close> or a timedelta, and \<^verbatim>\<open>if expires_delta\<close> is false
  for \<open>None\<close> and for the zero timedelta. The result is the heap after the call and the
  token (or the exception raised).
\<close>

definition create_access_token ::
    "pylib \<Rightarrow> settings \<Rightarrow> int \<Rightarrow> heap \<Rightarrow> nat \<Rightarrow> int option \<Rightarrow> heap \<times> (exn + token)" where
  "create_access_token L cfg now h data expires_delta =
     (let (h1, to_encode) = dict_copy h data
      in (case (case expires_delta of
                  Some delta \<Rightarrow>
                    if delta \<noteq> 0 then datetime_add now delta
                    else (case timedelta_minutes (access_token_expire_minutes cfg) of
                            Inl e \<Rightarrow> Inl e
                          | Inr dflt \<Rightarrow> datetime_add now dflt)
                | None \<Rightarrow>
                    (case timedelta_minutes (access_token_expire_minutes cfg) of
                       Inl e \<Rightarrow> Inl e
                     | Inr dflt \<Rightarrow> datetime_add now dflt)) of
            Inl e \<Rightarrow> (h1, Inl e)
          | Inr expire \<Rightarrow>
              jose_encode L (dict_setitem h1 to_encode ''exp'' (PDatetime expire)) to_encode
                (secret_key cfg) (algorithm cfg)))"

text \<open>
  \<^verbatim>\<open>verify_token(token)\<close>: the payload, or \<open>None\<close> when the decoder raised a \<^verbatim>\<open>JWTError\<close>;
  any other exception propagates.
\<close>

definition verify_token :: "pylib \<Rightarrow> settings \<Rightarrow> int \<Rightarrow> token \<Rightarrow> exn + pydict option" where
  "verify_token L cfg now tok =
     (case jose_decode L tok (secret_key cfg) [algorithm cfg] now of
        Inr payload \<Rightarrow> Inr (Some payload)
      | Inl e \<Rightarrow> if is_JWTError e then Inr None else Inl e)"

text \<open>Read-outs used to state properties of tokens.\<close>

definition token_claims :: "token \<Rightarrow> pydict" where
  "token_claims tok = (case tok of JWS header (PDict claims) sg \<Rightarrow> claims | _ \<Rightarrow> [])"

text \<open>
  The claims that a token issued from the claim set \<open>c\<close> with expiry second \<open>e\<close> carries:
  \<^verbatim>\<open>exp\<close> set to \<open>e\<close>, and a datetime under \<^verbatim>\<open>iat\<close> or \<^verbatim>\<open>nbf\<close> replaced by its whole second.
\<close>

definition to_intdate :: "string \<Rightarrow> pydict \<Rightarrow> pydict" where
  "to_intdate k c =
     (case map_of c k of
        Some (PDatetime d) \<Rightarrow> AList.update k (PInt (timegm d)) c
      | _ \<Rightarrow> c)"

definition encoded_claims :: "pydict \<Rightarrow> int \<Rightarrow> pydict" where
  "encoded_claims c e = to_intdate ''nbf'' (to_intdate ''iat'' (AList.update ''exp'' (PInt e) c))"

text \<open>
  The decoder's validation of the registered claims other than \<^verbatim>\<open>exp\<close>, and the claim sets
  whose three time claims, where present, are integers, booleans or strings (the values
  on which \<^verbatim>\<open>int\<close> does not raise a \<^verbatim>\<open>TypeError\<close>).
\<close>

definition jose_validate_others :: "pylib \<Rightarrow> int \<Rightarrow> pydict \<Rightarrow> exn option" where
  "jose_validate_others L now_s claims =
     first_error [validate_iat L claims, validate_nbf L now_s claims, validate_aud claims,
                  validate_sub claims, validate_jti claims, validate_at_hash claims]"




section \<open>Passwords (\<^verbatim>\<open>passlib\<close>)\<close>

text \<open>
  bcrypt digests the UTF-8 bytes of a password, at most 72 of them, and passlib refuses a
  password with a NUL byte. For passwords without a NUL byte and of at most 72 bytes the
  model is ideal hashing: a hash matches the password it was computed from and no other.
  Outside that range the outcome is the library's. For a stored value that is no bcrypt
  hash \<^verbatim>\<open>CryptContext.verify\<close> raises a \<^verbatim>\<open>ValueError\<close> (\<^verbatim>\<open>UnknownHashError\<close>,
  \<^verbatim>\<open>MalformedHashError\<close>).
\<close>

definition utf8_length :: "string \<Rightarrow> nat" where
  "utf8_length s = sum_list (map (\<lambda>c. if (of_char c :: nat) < 128 then 1 else 2) s)"

definition bcrypt_plain :: "string \<Rightarrow> bool" where
  "bcrypt_plain s = (list_all (\<lambda>c. (of_char c :: nat) \<noteq> 0) s \<and> utf8_length s \<le> 72)"

definition pwd_context_verify :: "pylib \<Rightarrow> string \<Rightarrow> pwhash \<Rightarrow> exn + bool" where
  "pwd_context_verify L secret hash =
     (case hash of
        NotAHash s \<Rightarrow> Inl ValueError
      | BcryptHash salt password \<Rightarrow>
          if bcrypt_plain secret \<and> bcrypt_plain password then Inr (secret = password)
          else bcrypt_other_verify L secret salt password)"

text \<open>The salt that the library draws at each call is a parameter.\<close>

definition pwd_context_hash :: "pylib \<Rightarrow> string \<Rightarrow> string \<Rightarrow> exn + pwhash" where
  "pwd_context_hash L salt secret =
     (if bcrypt_plain secret then Inr (BcryptHash salt secret)
      else bcrypt_other_hash L salt secret)"

definition verify_password :: "pylib \<Rightarrow> string \<Rightarrow> pwhash \<Rightarrow> exn + bool" where
  "verify_password L plain_password hashed_password =
     pwd_context_verify L plain_password hashed_password"

definition get_password_hash :: "pylib \<Rightarrow> string \<Rightarrow> string \<Rightarrow> exn + pwhash" where
  "get_password_hash L salt password = pwd_context_hash L salt password"

section \<open>The user model (\<^verbatim>\<open>app/models/user.py\<close>)\<close>

record user =
  user_id :: string
  email :: string
  name :: string
  household_id :: "string option"
  preferences :: pydict
  created_at :: int
  updated_at :: int

definition py_format :: "pylib \<Rightarrow> pyval \<Rightarrow> string" where
  "py_format L v = (case v of PStr s \<Rightarrow> s | _ \<Rightarrow> format_value L v)"

text \<open>
  \<^verbatim>\<open>User(**kw)\<close>: pydantic validates the keyword arguments against the fields of \<^verbatim>\<open>User\<close> and
  \<^verbatim>\<open>UserBase\<close> and raises \<^verbatim>\<open>ValidationError\<close> when a required field is missing or a value
  does not fit its field. \<^verbatim>\<open>email\<close>, \<^verbatim>\<open>name\<close>, \<^verbatim>\<open>id\<close>, \<^verbatim>\<open>created_at\<close> and \<^verbatim>\<open>updated_at\<close> have no
  default and are required, and \<^verbatim>\<open>email\<close> is stored as \<^verbatim>\<open>EmailStr\<close> normalises it; \<^verbatim>\<open>household_id\<close> defaults to \<open>None\<close> and \<^verbatim>\<open>preferences\<close> to the
  empty dictionary; keywords that name no field are ignored. Each reader below gives
  \<open>None\<close> when validation of its field fails. (For the two datetime fields pydantic would
  also parse a timestamp or an ISO string; the calls modelled here pass neither field at
  all, so only the case of the missing field matters.)
\<close>

definition required_str :: "pydict \<Rightarrow> string \<Rightarrow> string option" where
  "required_str kw k = (case map_of kw k of Some (PStr s) \<Rightarrow> Some s | _ \<Rightarrow> None)"

definition required_datetime :: "pydict \<Rightarrow> string \<Rightarrow> int option" where
  "required_datetime kw k = (case map_of kw k of Some (PDatetime d) \<Rightarrow> Some d | _ \<Rightarrow> None)"

definition optional_str :: "pydict \<Rightarrow> string \<Rightarrow> string option option" where
  "optional_str kw k =
     (case map_of kw k of
        None \<Rightarrow> Some None
      | Some PNone \<Rightarrow> Some None
      | Some (PStr s) \<Rightarrow> Some (Some s)
      | Some v \<Rightarrow> None)"

definition dict_or_empty :: "pydict \<Rightarrow> string \<Rightarrow> pydict option" where
  "dict_or_empty kw k =
     (case map_of kw k of
        None \<Rightarrow> Some []
      | Some (PDict d) \<Rightarrow> Some d
      | Some v \<Rightarrow> None)"

definition User :: "pylib \<Rightarrow> pydict \<Rightarrow> exn + user" where
  "User L kw =
     (case (required_str kw ''email'', required_str kw ''name'', required_str kw ''id'') of
        (Some e, Some n, Some i) \<Rightarrow>
          (case (optional_str kw ''household_id'', dict_or_empty kw ''preferences'') of
             (Some hh, Some prefs) \<Rightarrow>
               (case (required_datetime kw ''created_at'', required_datetime kw ''updated_at'') of
                  (Some c, Some u) \<Rightarrow>
                    (case validate_email L e of
                       Some normalised \<Rightarrow>
                         if 1 \<le> length n \<and> length n \<le> 100
                         then Inr \<lparr> user_id = i, email = normalised, name = n,
                                    household_id = hh, preferences = prefs, created_at = c,
                                    updated_at = u \<rparr>
                         else Inl ValidationError
                     | None \<Rightarrow> Inl ValidationError)
                | _ \<Rightarrow> Inl ValidationError)
           | _ \<Rightarrow> Inl ValidationError)
      | _ \<Rightarrow> Inl ValidationError)"

section \<open>Resolving the identity of a local token (\<^verbatim>\<open>auth.py\<close>)\<close>

record http_credentials =
  scheme :: string
  credentials :: token

definition credentials_exception :: exn where
  "credentials_exception =
     HTTPException 401 ''Could not validate credentials'' [(''WWW-Authenticate'', ''Bearer'')]"

text \<open>The body of the \<^verbatim>\<open>try\<close> block of \<^verbatim>\<open>get_current_user\<close>.\<close>

definition get_current_user_try ::
    "pylib \<Rightarrow> settings \<Rightarrow> int \<Rightarrow> http_credentials \<Rightarrow> exn + user" where
  "get_current_user_try L cfg now creds =
     (case verify_token L cfg now (credentials creds) of
        Inl e \<Rightarrow> Inl e
      | Inr None \<Rightarrow> Inl credentials_exception
      | Inr (Some payload) \<Rightarrow>
          if get payload ''sub'' = PNone then Inl credentials_exception
          else User L [(''id'', get payload ''sub''),
                       (''email'', get_default payload ''email'' (PStr [])),
                       (''name'', get_default payload ''name'' (PStr [])),
                       (''household_id'', get payload ''household_id'')])"

text \<open>\<^verbatim>\<open>except Exception\<close> replaces whatever the block raised by the 401.\<close>

definition get_current_user ::
    "pylib \<Rightarrow> settings \<Rightarrow> int \<Rightarrow> http_credentials \<Rightarrow> exn + user" where
  "get_current_user L cfg now creds =
     (case get_current_user_try L cfg now creds of
        Inr u \<Rightarrow> Inr u
      | Inl e \<Rightarrow> Inl credentials_exception)"

section \<open>The federated verifier (\<^verbatim>\<open>app/core/auth_b2c.py\<close>)\<close>

text \<open>
  The object \<^verbatim>\<open>b2c_auth\<close>. \<open>jwks_cache\<close> is the attribute \<^verbatim>\<open>_jwks\<close>, with \<open>PNone\<close> for Python's
  \<open>None\<close>. Two counters that the program does not have record its traffic: the number of
  \<^verbatim>\<open>requests.get\<close> calls made so far, and the number of those whose body was stored in the
  cache (the fetches that succeeded).
\<close>

record b2c_auth =
  tenant_name :: string
  client_id :: string
  policy_name :: string
  issuer :: string
  jwks_url :: string
  jwks_cache :: pyval
  requests_sent :: nat
  fetches_stored :: nat

definition AzureADB2CAuth :: "settings \<Rightarrow> b2c_auth" where
  "AzureADB2CAuth cfg =
     \<lparr> tenant_name = azure_b2c_tenant_name cfg,
       client_id = azure_b2c_client_id cfg,
       policy_name = azure_b2c_policy_name cfg,
       issuer = ''https://'' @ azure_b2c_tenant_name cfg @ ''.b2clogin.com/'' @
                azure_b2c_tenant_name cfg @ ''.onmicrosoft.com/'' @
                azure_b2c_policy_name cfg @ ''/v2.0/'',
       jwks_url = ''https://'' @ azure_b2c_tenant_name cfg @ ''.b2clogin.com/'' @
                  azure_b2c_tenant_name cfg @ ''.onmicrosoft.com/'' @
                  azure_b2c_policy_name cfg @ ''/discovery/v2.0/keys'',
       jwks_cache = PNone,
       requests_sent = 0,
       fetches_stored = 0 \<rparr>"

text \<open>
  The discovery endpoint is a parameter: \<open>net url n\<close> is what the \<open>n\<close>-th request of the
  process to \<open>url\<close> meets. \<^verbatim>\<open>requests.get\<close> may raise, \<^verbatim>\<open>raise_for_status\<close> may raise,
  \<^verbatim>\<open>response.json()\<close> may raise, or the body parses to a JSON value (\<^verbatim>\<open>null\<close> parses to \<open>None\<close>).
\<close>

datatype response = RequestFailed | ErrorStatus | BodyNotJSON | Body pyval

type_synonym network = "string \<Rightarrow> nat \<Rightarrow> response"

text \<open>
  \<^verbatim>\<open>get_jwks\<close> is declared \<^verbatim>\<open>async def\<close>. \<open>get_jwks\<close> below is one awaited run of its body: the
  new state of the object and the value returned or the exception raised.
\<close>

definition get_jwks :: "network \<Rightarrow> b2c_auth \<Rightarrow> b2c_auth \<times> (exn + pyval)" where
  "get_jwks net self =
     (if jwks_cache self = PNone then
        (case net (jwks_url self) (requests_sent self) of
           Body j \<Rightarrow>
             (self\<lparr> jwks_cache := j,
                    requests_sent := Suc (requests_sent self),
                    fetches_stored := Suc (fetches_stored self) \<rparr>, Inr j)
         | _ \<Rightarrow>
             (self\<lparr> requests_sent := Suc (requests_sent self) \<rparr>,
              Inl (HTTPException 500 ''Authentication service unavailable'' [])))
      else (self, Inr (jwks_cache self)))"

text \<open>A sequence of \<open>n\<close> awaited calls, one after the other, on the same object.\<close>

fun get_jwks_calls :: "nat \<Rightarrow> network \<Rightarrow> b2c_auth \<Rightarrow> b2c_auth" where
  "get_jwks_calls 0 net self = self"
| "get_jwks_calls (Suc n) net self = get_jwks_calls n net (fst (get_jwks net self))"

text \<open>
  The call expression \<^verbatim>\<open>self.get_jwks()\<close> without \<^verbatim>\<open>await\<close>, as the synchronous method
  \<^verbatim>\<open>verify_token\<close> writes it: it creates a coroutine object and runs nothing of the body, so
  the object's state is as before.
\<close>

definition get_jwks_unawaited :: "b2c_auth \<Rightarrow> b2c_auth \<times> pyval" where
  "get_jwks_unawaited self = (self, PCoroutine)"

text \<open>
  The PyJWT calls of \<^verbatim>\<open>verify_token\<close>. \<^verbatim>\<open>jwt.get_unverified_header\<close> raises \<^verbatim>\<open>DecodeError\<close> on a
  string that is no JWS and \<^verbatim>\<open>InvalidTokenError\<close> when the header's \<^verbatim>\<open>kid\<close> is not a string.
\<close>

definition get_unverified_header :: "token \<Rightarrow> exn + pydict" where
  "get_unverified_header tok =
     (case tok of
        NotJWS s \<Rightarrow> Inl DecodeError
      | JWS header payload sg \<Rightarrow>
          (case map_of header ''kid'' of
             None \<Rightarrow> Inr header
           | Some v \<Rightarrow> if is_str v then Inr header else Inl InvalidTokenError))"

text \<open>\<^verbatim>\<open>obj.get(k, default)\<close> on an arbitrary value: only a dictionary has the method.\<close>

definition method_get :: "pyval \<Rightarrow> string \<Rightarrow> pyval \<Rightarrow> exn + pyval" where
  "method_get obj k dflt =
     (case obj of PDict d \<Rightarrow> Inr (get_default d k dflt) | _ \<Rightarrow> Inl AttributeError)"

text \<open>The items a \<^verbatim>\<open>for\<close> loop draws from a value.\<close>

definition py_iter :: "pyval \<Rightarrow> exn + pyval list" where
  "py_iter v =
     (case v of
        PList xs \<Rightarrow> Inr xs
      | PDict d \<Rightarrow> Inr (map (\<lambda>kv. PStr (fst kv)) d)
      | PStr s \<Rightarrow> Inr (map (\<lambda>c. PStr [c]) s)
      | _ \<Rightarrow> Inl TypeError)"

text \<open>
  The loop that looks for the key: the first entry with the header's \<^verbatim>\<open>kid\<close>, turned into a
  key by \<^verbatim>\<open>RSAAlgorithm.from_jwk(json.dumps(jwk))\<close>.
\<close>

fun find_key :: "pylib \<Rightarrow> pyval list \<Rightarrow> pyval \<Rightarrow> exn + public_key option" where
  "find_key L [] kid = Inr None"
| "find_key L (jwk # rest) kid =
     (case method_get jwk ''kid'' PNone of
        Inl e \<Rightarrow> Inl e
      | Inr k \<Rightarrow>
          if k = kid
          then (case rsa_from_jwk L jwk of Inl e \<Rightarrow> Inl e | Inr key \<Rightarrow> Inr (Some key))
          else find_key L rest kid)"

text \<open>
  The \<^verbatim>\<open>try\<close> block of \<^verbatim>\<open>AzureADB2CAuth.verify_token\<close>. The key set is what the un-awaited call
  gave, and \<^verbatim>\<open>jwks.get('keys', [])\<close> is a method call on that value. The last step is
  \<^verbatim>\<open>jwt.decode(token, key, algorithms=['RS256'], audience=..., issuer=..., options=...)\<close>.
\<close>

definition b2c_verify_token_try ::
    "pylib \<Rightarrow> b2c_auth \<Rightarrow> int \<Rightarrow> token \<Rightarrow> b2c_auth \<times> (exn + pydict)" where
  "b2c_verify_token_try L self now tok =
     (case get_unverified_header tok of
        Inl e \<Rightarrow> (self, Inl e)
      | Inr unverified_header \<Rightarrow>
          (let (self1, jwks) = get_jwks_unawaited self
           in (self1,
               (case method_get jwks ''keys'' (PList []) of
                  Inl e \<Rightarrow> Inl e
                | Inr keys \<Rightarrow>
                    (case py_iter keys of
                       Inl e \<Rightarrow> Inl e
                     | Inr jwk_list \<Rightarrow>
                         (case find_key L jwk_list (get unverified_header ''kid'') of
                            Inl e \<Rightarrow> Inl e
                          | Inr None \<Rightarrow> Inl (HTTPException 401 ''Invalid token'' [])
                          | Inr (Some key) \<Rightarrow>
                              pyjwt_decode L tok key [''RS256''] (client_id self1)
                                (issuer self1) now))))))"

text \<open>
  The three \<^verbatim>\<open>except\<close> clauses of \<^verbatim>\<open>verify_token\<close>, in their order: \<^verbatim>\<open>ExpiredSignatureError\<close>,
  then \<^verbatim>\<open>InvalidTokenError\<close>, then \<^verbatim>\<open>Exception\<close> (which also catches the \<open>HTTPException\<close> that
  the block itself raises).
\<close>

definition b2c_verify_token_except :: "exn \<Rightarrow> exn" where
  "b2c_verify_token_except e =
     (if e = ExpiredSignatureError then HTTPException 401 ''Token has expired'' []
      else if is_InvalidTokenError e then HTTPException 401 ''Invalid token'' []
      else HTTPException 401 ''Token verification failed'' [])"

definition b2c_verify_token ::
    "pylib \<Rightarrow> b2c_auth \<Rightarrow> int \<Rightarrow> token \<Rightarrow> b2c_auth \<times> (exn + pydict)" where
  "b2c_verify_token L self now tok =
     (case b2c_verify_token_try L self now tok of
        (self', Inr payload) \<Rightarrow> (self', Inr payload)
      | (self', Inl e) \<Rightarrow> (self', Inl (b2c_verify_token_except e)))"

text \<open>
  Operations of \<^verbatim>\<open>get_user_from_token\<close> on dynamically typed values: \<^verbatim>\<open>x[0]\<close>, \<^verbatim>\<open>a + b\<close> where
  one operand is a string, and \<^verbatim>\<open>x.strip()\<close>, which removes the white space characters (below
  256 these are the code points 9 to 13, 28 to 32, 133 and 160).
\<close>

definition py_index0 :: "pyval \<Rightarrow> exn + pyval" where
  "py_index0 v =
     (case v of
        PList xs \<Rightarrow> (case xs of [] \<Rightarrow> Inl IndexError | x # rest \<Rightarrow> Inr x)
      | PStr s \<Rightarrow> (case s of [] \<Rightarrow> Inl IndexError | c # rest \<Rightarrow> Inr (PStr [c]))
      | PDict d \<Rightarrow> Inl KeyError
      | _ \<Rightarrow> Inl TypeError)"

definition str_concat :: "pyval \<Rightarrow> pyval \<Rightarrow> exn + pyval" where
  "str_concat a b =
     (case a of
        PStr x \<Rightarrow> (case b of PStr y \<Rightarrow> Inr (PStr (x @ y)) | _ \<Rightarrow> Inl TypeError)
      | _ \<Rightarrow> Inl TypeError)"

definition is_space :: "char \<Rightarrow> bool" where
  "is_space c = ((of_char c :: nat) \<in> {9, 10, 11, 12, 13, 28, 29, 30, 31, 32, 133, 160})"

definition py_strip :: "string \<Rightarrow> string" where
  "py_strip s = rev (dropWhile is_space (rev (dropWhile is_space s)))"

definition method_strip :: "pyval \<Rightarrow> exn + pyval" where
  "method_strip v = (case v of PStr s \<Rightarrow> Inr (PStr (py_strip s)) | _ \<Rightarrow> Inl AttributeError)"

definition default_preferences :: pydict where
  "default_preferences =
     [(''notificationDays'', PInt 3), (''theme'', PStr ''dark''), (''units'', PStr ''imperial'')]"

text \<open>
  \<^verbatim>\<open>get_user_from_token\<close>, in three steps. First the block up to the call of \<^verbatim>\<open>User\<close>: it
  yields the keyword arguments of that call, or the exception raised before it.
\<close>

definition get_user_from_token_kwargs :: "pylib \<Rightarrow> pydict \<Rightarrow> exn + pydict" where
  "get_user_from_token_kwargs L payload =
     (let uid = py_or (get payload ''sub'') (get payload ''oid'')
      in (case (if truthy (get payload ''emails'')
                then py_index0 (get_default payload ''emails'' (PList [PNone]))
                else Inr (get payload ''email'')) of
            Inl e \<Rightarrow> Inl e
          | Inr mail \<Rightarrow>
              (case (if truthy (get payload ''name'') then Inr (get payload ''name'')
                     else (case str_concat (get_default payload ''given_name'' (PStr []))
                                  (PStr '' '') of
                             Inl e \<Rightarrow> Inl e
                           | Inr given \<Rightarrow>
                               str_concat given
                                 (get_default payload ''family_name'' (PStr [])))) of
                 Inl e \<Rightarrow> Inl e
               | Inr nm \<Rightarrow>
                   if \<not> truthy uid
                   then Inl (HTTPException 401 ''Invalid token: missing user ID'' [])
                   else (case method_strip nm of
                           Inl e \<Rightarrow> Inl e
                         | Inr stripped \<Rightarrow>
                             Inr [(''id'', uid),
                                  (''email'',
                                     py_or mail (PStr (py_format L uid @ ''@b2c.local''))),
                                  (''name'', py_or stripped (PStr ''B2C User'')),
                                  (''householdId'', PNone),
                                  (''preferences'', PDict default_preferences)]))))"

text \<open>Then the whole \<^verbatim>\<open>try\<close> block, and the \<^verbatim>\<open>except Exception\<close> clause around it.\<close>

definition get_user_from_token_try :: "pylib \<Rightarrow> pydict \<Rightarrow> exn + user" where
  "get_user_from_token_try L payload =
     (case get_user_from_token_kwargs L payload of
        Inl e \<Rightarrow> Inl e
      | Inr kw \<Rightarrow> User L kw)"

definition get_user_from_token :: "pylib \<Rightarrow> pydict \<Rightarrow> exn + user" where
  "get_user_from_token L payload =
     (case get_user_from_token_try L payload of
        Inr u \<Rightarrow> Inr u
      | Inl e \<Rightarrow> Inl (HTTPException 401 ''Invalid token payload'' []))"

text \<open>
  \<^verbatim>\<open>get_current_user\<close> of \<^verbatim>\<open>auth_b2c.py\<close>: an \<open>HTTPException\<close> is raised again as it is, any
  other exception becomes a 401.
\<close>

definition b2c_reraise :: "exn \<Rightarrow> exn" where
  "b2c_reraise e =
     (if is_HTTPException e then e else HTTPException 401 ''Authentication failed'' [])"

definition b2c_get_current_user ::
    "pylib \<Rightarrow> b2c_auth \<Rightarrow> int \<Rightarrow> http_credentials \<Rightarrow> b2c_auth \<times> (exn + user)" where
  "b2c_get_current_user L self now creds =
     (case b2c_verify_token L self now (credentials creds) of
        (self', Inl e) \<Rightarrow> (self', Inl (b2c_reraise e))
      | (self', Inr payload) \<Rightarrow>
          (case get_user_from_token L payload of
             Inl e \<Rightarrow> (self', Inl (b2c_reraise e))
           | Inr u \<Rightarrow> (self', Inr u)))"

text \<open>
  \<^verbatim>\<open>get_optional_user\<close>: \<open>None\<close> for no credentials, else the user of \<^verbatim>\<open>get_current_user\<close>; only an
  \<open>HTTPException\<close> is caught and turned into \<open>None\<close>.
\<close>

definition get_optional_user ::
    "pylib \<Rightarrow> b2c_auth \<Rightarrow> int \<Rightarrow> http_credentials option \<Rightarrow>
       b2c_auth \<times> (exn + user option)" where
  "get_optional_user L self now creds_opt =
     (case creds_opt of
        None \<Rightarrow> (self, Inr None)
      | Some creds \<Rightarrow>
          (case b2c_get_current_user L self now creds of
             (self', Inr u) \<Rightarrow> (self', Inr (Some u))
           | (self', Inl e) \<Rightarrow>
               if is_HTTPException e then (self', Inr None) else (self', Inl e)))"

text \<open>
  One instance of the library parameters, for evaluating the functions at concrete inputs.
  With it every secret is taken as the HMAC secret, which holds of the default secret of
  \<^verbatim>\<open>config.py\<close>; its other fields are not looked at by the evaluations below.
\<close>

definition lib0 :: pylib where
  "lib0 =
     \<lparr> validate_email = (\<lambda>s. Some s),
       format_value = (\<lambda>v. []),
       int_of_str = (\<lambda>s. None),
       hmac_secret_ok = (\<lambda>key. True),
       other_supported = (\<lambda>alg. False),
       other_sign = (\<lambda>alg key. None),
       other_verify = (\<lambda>alg key sg. Inr False),
       bcrypt_other_verify = (\<lambda>secret salt password. Inl ValueError),
       bcrypt_other_hash = (\<lambda>salt secret. Inl ValueError),
       rsa_from_jwk = (\<lambda>jwk. Inl InvalidKeyError),
       pyjwt_decode = (\<lambda>tok key algorithms aud iss now. Inl InvalidTokenError) \<rparr>"

section \<open>Properties of the local authenticator\<close>


lemma first_error_None_iff: "first_error es = None \<longleftrightarrow> (\<forall>x \<in> set es. x = None)"
  by (induction es rule: first_error.induct) auto











lemma jose_verify_hmac:
  "alg \<in> set hmac_algorithms \<Longrightarrow> hmac_secret_ok L key \<Longrightarrow>
     jose_verify L alg key sg = Inr (sg = HMACSig alg key)"
  by (simp add: jose_verify_def)

lemma jose_decode_accepts:
  assumes "alg \<in> set hmac_algorithms" "hmac_secret_ok L key"
    and "map_of header ''alg'' = Some (PStr alg)"
  shows "jose_decode L (JWS header (PDict claims) (HMACSig alg key)) key [alg] now =
           (case jose_validate_claims L (timegm now) claims of
              Some e \<Rightarrow> Inl e | None \<Rightarrow> Inr claims)"
  using assms by (simp add: jose_decode_def jose_verify_hmac)




lemma validate_exp_expired:
  "map_of claims ''exp'' = Some (PInt e) \<Longrightarrow> e < now_s \<Longrightarrow>
     validate_exp L now_s claims = Some JoseExpiredSignatureError"
  by (simp add: validate_exp_def py_int_def)

lemma jose_decode_expired:
  assumes "map_of claims ''exp'' = Some (PInt e)" "e < timegm now"
  shows "\<forall>p. jose_decode L (JWS header (PDict claims) sg) key algorithms now \<noteq> Inr p"
proof -
  have "jose_validate_claims L (timegm now) claims \<noteq> None"
    using validate_exp_expired[OF assms, of L]
    by (simp add: jose_validate_claims_def first_error_None_iff)
  then show ?thesis
    by (auto simp: jose_decode_def split: option.splits pyval.splits sum.splits)
qed




text \<open>The heap under the writes of \<open>create_access_token\<close> and \<open>jose_encode\<close>.\<close>

lemma length_dict_setitem [simp]: "length (dict_setitem h r k v) = length h"
  by (simp add: dict_setitem_def)

lemma nth_dict_setitem_other: "i \<noteq> r \<Longrightarrow> dict_setitem h r k v ! i = h ! i"
  by (simp add: dict_setitem_def)

lemma nth_dict_setitem_same:
  "r < length h \<Longrightarrow> dict_setitem h r k v ! r = AList.update k v (h ! r)"
  by (simp add: dict_setitem_def)

lemma length_convert_time_claim [simp]: "length (convert_time_claim h r k) = length h"
  by (simp add: convert_time_claim_def split: option.splits pyval.splits)

lemma nth_convert_time_claim_other:
  "i \<noteq> r \<Longrightarrow> convert_time_claim h r k ! i = h ! i"
  by (simp add: convert_time_claim_def nth_dict_setitem_other split: option.splits pyval.splits)

lemma nth_convert_time_claim_same:
  "r < length h \<Longrightarrow> convert_time_claim h r k ! r = to_intdate k (h ! r)"
  by (simp add: convert_time_claim_def to_intdate_def nth_dict_setitem_same
      split: option.splits pyval.splits)

lemma map_of_to_intdate_other: "k' \<noteq> k \<Longrightarrow> map_of (to_intdate k c) k' = map_of c k'"
  by (simp add: to_intdate_def update_conv' split: option.splits pyval.splits)

lemma map_of_encoded_claims_exp: "map_of (encoded_claims c e) ''exp'' = Some (PInt e)"
  by (simp add: encoded_claims_def map_of_to_intdate_other update_conv')

lemma map_of_encoded_claims_other:
  "k \<noteq> ''exp'' \<Longrightarrow> k \<noteq> ''iat'' \<Longrightarrow> k \<noteq> ''nbf'' \<Longrightarrow>
     map_of (encoded_claims c e) k = map_of c k"
  by (simp add: encoded_claims_def map_of_to_intdate_other update_conv')

text \<open>What \<open>jose_encode\<close> does once the expiry is stored in the copy.\<close>

lemma jose_encode_heap:
  "fst (jose_encode L h claims key alg) =
     convert_time_claim (convert_time_claim (convert_time_claim h claims ''exp'')
                 claims ''iat'') claims ''nbf''"
  by (simp add: jose_encode_def Let_def split: option.splits)

lemma encoded_cell:
  "fst (jose_encode L (dict_setitem (h @ [c]) (length h) ''exp'' (PDatetime E))
          (length h) key alg) ! length h
     = encoded_claims c (timegm E)"
proof -
  let ?h2 = "dict_setitem (h @ [c]) (length h) ''exp'' (PDatetime E)"
  have c2: "?h2 ! length h = AList.update ''exp'' (PDatetime E) c"
    by (simp add: nth_dict_setitem_same)
  have "to_intdate ''exp'' (AList.update ''exp'' (PDatetime E) c)
          = AList.update ''exp'' (PInt (timegm E)) c"
    by (simp add: to_intdate_def update_conv')
  then show ?thesis
    by (simp add: jose_encode_heap nth_convert_time_claim_same c2 encoded_claims_def)
qed

lemma jose_encode_result:
  "snd (jose_encode L (dict_setitem (h @ [c]) (length h) ''exp'' (PDatetime E))
          (length h) key alg)
     = (if \<not> alg_supported L alg then Inl JWSError
        else if \<not> json_ok (PDict (encoded_claims c (timegm E))) then Inl TypeError
        else (case jose_sign L alg key of
                None \<Rightarrow> Inl JWSError
              | Some sg \<Rightarrow>
                  Inr (JWS [(''alg'', PStr alg), (''typ'', PStr ''JWT'')]
                           (PDict (encoded_claims c (timegm E))) sg)))"
proof -
  let ?h2 = "dict_setitem (h @ [c]) (length h) ''exp'' (PDatetime E)"
  have cell: "convert_time_claim (convert_time_claim (convert_time_claim ?h2 (length h) ''exp'')
                 (length h) ''iat'') (length h) ''nbf'' ! length h = encoded_claims c (timegm E)"
    using encoded_cell[of L h c E key alg] by (simp only: jose_encode_heap)
  show ?thesis
    unfolding jose_encode_def Let_def cell
    by (simp split: option.splits)
qed

lemma jose_encode_frame:
  "i < length h \<Longrightarrow>
     fst (jose_encode L (dict_setitem (h @ [c]) (length h) ''exp'' v) (length h) key alg) ! i
       = h ! i"
  by (simp add: jose_encode_heap nth_convert_time_claim_other nth_dict_setitem_other nth_append)

lemma jose_encode_length:
  "length h \<le> length (fst (jose_encode L (dict_setitem (h @ [c]) (length h) ''exp'' v)
                               (length h) key alg))"
  by (simp add: jose_encode_heap)

text \<open>The two ways in which \<open>create_access_token\<close> computes the expiry.\<close>

lemma create_access_token_given:
  "d \<noteq> 0 \<Longrightarrow>
   create_access_token L cfg now h data (Some d) =
     (case datetime_add now d of
        Inl e \<Rightarrow> (h @ [h ! data], Inl e)
      | Inr E \<Rightarrow>
          jose_encode L (dict_setitem (h @ [h ! data]) (length h) ''exp'' (PDatetime E))
            (length h) (secret_key cfg) (algorithm cfg))"
  by (simp add: create_access_token_def dict_copy_def)

lemma create_access_token_default:
  "expires_delta = None \<or> expires_delta = Some 0 \<Longrightarrow>
   create_access_token L cfg now h data expires_delta =
     (case timedelta_minutes (access_token_expire_minutes cfg) of
        Inl e \<Rightarrow> (h @ [h ! data], Inl e)
      | Inr dflt \<Rightarrow>
          (case datetime_add now dflt of
             Inl e \<Rightarrow> (h @ [h ! data], Inl e)
           | Inr E \<Rightarrow>
               jose_encode L (dict_setitem (h @ [h ! data]) (length h) ''exp'' (PDatetime E))
                 (length h) (secret_key cfg) (algorithm cfg)))"
  by (auto simp: create_access_token_def dict_copy_def split: sum.splits)

lemma create_access_token_cases:
  obtains (raised) e where
      "create_access_token L cfg now h data expires_delta = (h @ [h ! data], Inl e)"
  | (encoded) lt where
      "lt = (case expires_delta of
               Some d \<Rightarrow> if d \<noteq> 0 then d else access_token_expire_minutes cfg * 60000000
             | None \<Rightarrow> access_token_expire_minutes cfg * 60000000)"
      "datetime_min \<le> now + lt" "now + lt \<le> datetime_max"
      "create_access_token L cfg now h data expires_delta =
         jose_encode L (dict_setitem (h @ [h ! data]) (length h) ''exp'' (PDatetime (now + lt)))
           (length h) (secret_key cfg) (algorithm cfg)"
proof (cases "\<exists>d. expires_delta = Some d \<and> d \<noteq> 0")
  case True
  then obtain d where d: "expires_delta = Some d" "d \<noteq> 0" by blast
  show ?thesis
  proof (cases "datetime_min \<le> now + d \<and> now + d \<le> datetime_max")
    case True
    with d show ?thesis
      by (intro encoded[of d]) (simp_all add: create_access_token_given datetime_add_def)
  next
    case False
    with d show ?thesis
      by (intro raised[of OverflowError]) (auto simp: create_access_token_given datetime_add_def)
  qed
next
  case False
  then have dflt: "expires_delta = None \<or> expires_delta = Some 0" by (cases expires_delta) auto
  let ?m = "access_token_expire_minutes cfg * 60000000"
  show ?thesis
  proof (cases "timedelta_min \<le> ?m \<and> ?m \<le> timedelta_max
                \<and> datetime_min \<le> now + ?m \<and> now + ?m \<le> datetime_max")
    case True
    with dflt show ?thesis
      by (intro encoded[of ?m])
         (auto simp: create_access_token_default timedelta_minutes_def datetime_add_def)
  next
    case False
    with dflt show ?thesis
      by (intro raised[of OverflowError])
         (auto simp: create_access_token_default timedelta_minutes_def datetime_add_def)
  qed
qed

lemma create_access_token_frame:
  assumes "i < length h"
  shows "fst (create_access_token L cfg now h data expires_delta) ! i = h ! i"
  using assms
  by (cases rule: create_access_token_cases[of L cfg now h data expires_delta])
     (simp_all add: jose_encode_frame nth_append)

lemma create_access_token_length:
  "length h \<le> length (fst (create_access_token L cfg now h data expires_delta))"
  by (cases rule: create_access_token_cases[of L cfg now h data expires_delta])
     (simp_all add: jose_encode_length)

lemma create_access_token_exp:
  assumes "snd (create_access_token L cfg now h data expires_delta) = Inr tok"
  shows "map_of (token_claims tok) ''exp'' =
           Some (PInt (timegm (now +
              (case expires_delta of
                 Some d \<Rightarrow> if d \<noteq> 0 then d else access_token_expire_minutes cfg * 60000000
               | None \<Rightarrow> access_token_expire_minutes cfg * 60000000))))"
proof (cases rule: create_access_token_cases[of L cfg now h data expires_delta])
  case (raised e)
  with assms show ?thesis by simp
next
  case (encoded lt)
  from assms show ?thesis
    unfolding encoded(4) jose_encode_result encoded(1)[symmetric]
    by (auto simp: token_claims_def map_of_encoded_claims_exp split: if_splits option.splits)
qed

text \<open>
  Claim C10. Whatever \<open>create_access_token\<close> returns or raises, the dictionary at the
  caller's address is as before, and so is every other dictionary of the caller's heap. A
  token that it issues carries under \<^verbatim>\<open>exp\<close> the whole second of the computed expiry: now
  plus the delta when one is given and is not zero, else now plus the configured lifetime.
  And it does issue a token when that instant is a representable datetime, the algorithm is
  supported, the claims are serialisable and signing succeeds: the token carries the
  caller's claims with \<^verbatim>\<open>exp\<close> set to the computed expiry, whatever \<^verbatim>\<open>exp\<close> the caller
  supplied.
\<close>

theorem create_access_token_copy_and_exp:
  assumes "data < length h"
  shows "fst (create_access_token L cfg now h data expires_delta) ! data = h ! data
     \<and> take (length h) (fst (create_access_token L cfg now h data expires_delta)) = h
     \<and> (\<forall>tok. snd (create_access_token L cfg now h data expires_delta) = Inr tok \<longrightarrow>
           map_of (token_claims tok) ''exp'' =
             Some (PInt (timegm (now +
               (case expires_delta of
                  Some d \<Rightarrow> if d \<noteq> 0 then d else access_token_expire_minutes cfg * 60000000
                | None \<Rightarrow> access_token_expire_minutes cfg * 60000000)))))
     \<and> (d \<noteq> 0 \<and> datetime_min \<le> now + d \<and> now + d \<le> datetime_max
          \<and> alg_supported L (algorithm cfg)
          \<and> json_ok (PDict (encoded_claims (h ! data) (timegm (now + d))))
          \<and> jose_sign L (algorithm cfg) (secret_key cfg) = Some sg \<longrightarrow>
         snd (create_access_token L cfg now h data (Some d)) =
           Inr (JWS [(''alg'', PStr (algorithm cfg)), (''typ'', PStr ''JWT'')]
                    (PDict (encoded_claims (h ! data) (timegm (now + d)))) sg))
     \<and> ((expires_delta = None \<or> expires_delta = Some 0)
          \<and> timedelta_min \<le> access_token_expire_minutes cfg * 60000000
          \<and> access_token_expire_minutes cfg * 60000000 \<le> timedelta_max
          \<and> datetime_min \<le> now + access_token_expire_minutes cfg * 60000000
          \<and> now + access_token_expire_minutes cfg * 60000000 \<le> datetime_max
          \<and> alg_supported L (algorithm cfg)
          \<and> json_ok (PDict (encoded_claims (h ! data)
                (timegm (now + access_token_expire_minutes cfg * 60000000))))
          \<and> jose_sign L (algorithm cfg) (secret_key cfg) = Some sg \<longrightarrow>
         snd (create_access_token L cfg now h data expires_delta) =
           Inr (JWS [(''alg'', PStr (algorithm cfg)), (''typ'', PStr ''JWT'')]
                    (PDict (encoded_claims (h ! data)
                       (timegm (now + access_token_expire_minutes cfg * 60000000)))) sg))
     \<and> map_of (encoded_claims (h ! data) e) ''exp'' = Some (PInt e)"
proof -
  have frame: "fst (create_access_token L cfg now h data expires_delta) ! data = h ! data"
    using assms by (rule create_access_token_frame)
  have "take (length h) (fst (create_access_token L cfg now h data expires_delta)) = h"
    using create_access_token_length[of h L cfg now data expires_delta]
    by (intro nth_equalityI) (simp_all add: create_access_token_frame)
  moreover have "snd (create_access_token L cfg now h data (Some d)) =
           Inr (JWS [(''alg'', PStr (algorithm cfg)), (''typ'', PStr ''JWT'')]
                    (PDict (encoded_claims (h ! data) (timegm (now + d)))) sg)"
    if "d \<noteq> 0" "datetime_min \<le> now + d" "now + d \<le> datetime_max"
       "alg_supported L (algorithm cfg)"
       "json_ok (PDict (encoded_claims (h ! data) (timegm (now + d))))"
       "jose_sign L (algorithm cfg) (secret_key cfg) = Some sg"
    using that
    by (simp add: create_access_token_given datetime_add_def jose_encode_result)
  moreover have "snd (create_access_token L cfg now h data expires_delta) =
           Inr (JWS [(''alg'', PStr (algorithm cfg)), (''typ'', PStr ''JWT'')]
                    (PDict (encoded_claims (h ! data)
                       (timegm (now + access_token_expire_minutes cfg * 60000000)))) sg)"
    if "expires_delta = None \<or> expires_delta = Some 0"
       "timedelta_min \<le> access_token_expire_minutes cfg * 60000000"
       "access_token_expire_minutes cfg * 60000000 \<le> timedelta_max"
       "datetime_min \<le> now + access_token_expire_minutes cfg * 60000000"
       "now + access_token_expire_minutes cfg * 60000000 \<le> datetime_max"
       "alg_supported L (algorithm cfg)"
       "json_ok (PDict (encoded_claims (h ! data)
                (timegm (now + access_token_expire_minutes cfg * 60000000))))"
       "jose_sign L (algorithm cfg) (secret_key cfg) = Some sg"
    using that(2-)
    by (simp add: create_access_token_default[OF that(1)] timedelta_minutes_def
        datetime_add_def jose_encode_result)
  ultimately show ?thesis
    using frame create_access_token_exp[of L cfg now h data expires_delta]
      map_of_encoded_claims_exp[of "h ! data" e]
    by blast
qed

theorem create_access_token_copy_and_exp_witness:
  "(0::nat) < length [[(''sub'', PStr ''u1''), (''exp'', PInt 1)]]
   \<and> fst (create_access_token lib0 default_settings 40000000
            [[(''sub'', PStr ''u1''), (''exp'', PInt 1)]] 0 (Some 5000000)) ! 0
       = [(''sub'', PStr ''u1''), (''exp'', PInt 1)]
   \<and> snd (create_access_token lib0 default_settings 40000000
            [[(''sub'', PStr ''u1''), (''exp'', PInt 1)]] 0 (Some 5000000))
       = Inr (JWS [(''alg'', PStr ''HS256''), (''typ'', PStr ''JWT'')]
                  (PDict [(''sub'', PStr ''u1''), (''exp'', PInt 45)])
                  (HMACSig ''HS256'' ''your-secret-key-here''))
   \<and> snd (create_access_token lib0 default_settings 40000000
            [[(''sub'', PStr ''u1''), (''exp'', PInt 1)]] 0 None)
       = Inr (JWS [(''alg'', PStr ''HS256''), (''typ'', PStr ''JWT'')]
                  (PDict [(''sub'', PStr ''u1''), (''exp'', PInt 1840)])
                  (HMACSig ''HS256'' ''your-secret-key-here''))"
proof -
  let ?c = "[(''sub'', PStr ''u1''), (''exp'', PInt 1)]"
  have l: "(0::nat) < length [?c]" by simp
  have enc: "encoded_claims ?c e = [(''sub'', PStr ''u1''), (''exp'', PInt e)]" for e
    by (simp add: encoded_claims_def to_intdate_def)
  have cfg: "algorithm default_settings = ''HS256''"
    "secret_key default_settings = ''your-secret-key-here''"
    "access_token_expire_minutes default_settings = 30"
    by (simp_all add: default_settings_def)
  have sup: "alg_supported lib0 ''HS256''"
    by (simp add: alg_supported_def hmac_algorithms_def)
  have sg: "jose_sign lib0 ''HS256'' ''your-secret-key-here''
              = Some (HMACSig ''HS256'' ''your-secret-key-here'')"
    by (simp add: jose_sign_def hmac_algorithms_def lib0_def)
  have rng: "datetime_min \<le> 40000000 + 5000000" "40000000 + 5000000 \<le> datetime_max"
    "timedelta_min \<le> 30 * 60000000" "30 * 60000000 \<le> timedelta_max"
    "datetime_min \<le> 40000000 + 30 * 60000000" "40000000 + 30 * 60000000 \<le> datetime_max"
    by (simp_all add: datetime_min_def datetime_max_def timedelta_min_def timedelta_max_def)
  show ?thesis
    using create_access_token_copy_and_exp[OF l, of lib0 default_settings 40000000
        "Some 5000000" 5000000 "HMACSig ''HS256'' ''your-secret-key-here''" 0]
      create_access_token_copy_and_exp[OF l, of lib0 default_settings 40000000
        None 5000000 "HMACSig ''HS256'' ''your-secret-key-here''" 0]
      sup sg rng
    by (simp add: cfg enc timegm_def)
qed

text \<open>Verifying a token that \<open>create_access_token\<close> issued.\<close>

lemma jose_sign_hmac:
  "alg \<in> set hmac_algorithms \<Longrightarrow> hmac_secret_ok L key \<Longrightarrow>
     jose_sign L alg key = Some (HMACSig alg key)"
  by (simp add: jose_sign_def)

lemma validate_claims_of_others:
  assumes "jose_validate_others L now_s claims = None"
  shows "jose_validate_claims L now_s claims = validate_exp L now_s claims"
proof -
  have "validate_iat L claims = None" "validate_nbf L now_s claims = None"
    "validate_aud claims = None" "validate_sub claims = None" "validate_jti claims = None"
    "validate_at_hash claims = None"
    using assms by (simp_all add: jose_validate_others_def first_error_None_iff)
  then show ?thesis
    by (cases "validate_exp L now_s claims") (simp_all add: jose_validate_claims_def)
qed

lemma validate_exp_int:
  "map_of claims ''exp'' = Some (PInt e) \<Longrightarrow>
     validate_exp L now_s claims = (if e < now_s then Some JoseExpiredSignatureError else None)"
  by (simp add: validate_exp_def py_int_def)

lemma verify_issued:
  assumes cfg: "algorithm cfg \<in> set hmac_algorithms" "hmac_secret_ok L (secret_key cfg)"
    and e: "map_of claims ''exp'' = Some (PInt e)"
    and o: "jose_validate_others L (timegm now') claims = None"
  shows "verify_token L cfg now'
           (JWS [(''alg'', PStr (algorithm cfg)), (''typ'', PStr ''JWT'')] (PDict claims)
                (HMACSig (algorithm cfg) (secret_key cfg))) =
         (if timegm now' \<le> e then Inr (Some claims) else Inr None)"
  using jose_decode_accepts[OF cfg, of "[(''alg'', PStr (algorithm cfg)), (''typ'', PStr ''JWT'')]"
      claims now']
  by (simp add: verify_token_def validate_claims_of_others[OF o] validate_exp_int[OF e])

lemma verify_expired_never_succeeds:
  assumes "map_of claims ''exp'' = Some (PInt e)" "e < timegm now'"
  shows "verify_token L cfg now' (JWS header (PDict claims) sg) \<noteq> Inr (Some p)"
  using jose_decode_expired[OF assms, of L header sg "secret_key cfg" "[algorithm cfg]"]
  by (auto simp: verify_token_def split: sum.splits if_splits)

lemma timegm_mono: "a \<le> b \<Longrightarrow> timegm a \<le> timegm b"
  by (simp add: timegm_def zdiv_mono1)

lemma timegm_next_second: "timegm (a + 1000000) = timegm a + 1"
  by (simp add: timegm_def)

text \<open>
  Claim C2, as amended. Let the algorithm be an HMAC algorithm and the secret one that the
  library takes as it is. For every claim set \<open>c\<close> and every ttl \<open>t > 0\<close> such that
  \<open>now + t\<close> is a representable datetime and the claims are serialisable,
  \<open>create_access_token\<close> issues a token whose payload is \<open>c\<close> with \<^verbatim>\<open>exp\<close> set to the whole
  second of \<open>now + t\<close> (and a datetime under \<^verbatim>\<open>iat\<close> or \<^verbatim>\<open>nbf\<close> replaced by its whole second),
  so that every other claim of \<open>c\<close>, \<^verbatim>\<open>sub\<close> included, is in it. At an instant at which the
  decoder accepts the other registered claims of the payload, \<open>verify_token\<close> returns the
  payload exactly while the whole second of the clock does not exceed the whole second of
  \<open>now + t\<close>: at every instant before \<open>now + t\<close> it succeeds, from \<open>now + t\<close> plus one second
  on it returns \<open>None\<close>. Whatever the other claims are, it never returns a payload once the
  whole second of the clock exceeds that of \<open>now + t\<close>. (As stated, the claim fails: the
  expiry is kept and compared in whole seconds, so the token is still accepted after
  \<open>now + t\<close>, until the end of the second in which that instant lies.)
\<close>

theorem verify_token_create_access_token:
  assumes "algorithm cfg \<in> set hmac_algorithms"
      and "hmac_secret_ok L (secret_key cfg)"
      and "data < length h"
      and "0 < t"
      and "datetime_min \<le> now + t" and "now + t \<le> datetime_max"
      and "json_ok (PDict (encoded_claims (h ! data) (timegm (now + t))))"
  shows "\<exists>tok payload.
           snd (create_access_token L cfg now h data (Some t)) = Inr tok
         \<and> payload = encoded_claims (h ! data) (timegm (now + t))
         \<and> (\<forall>k. k \<noteq> ''exp'' \<and> k \<noteq> ''iat'' \<and> k \<noteq> ''nbf'' \<longrightarrow>
                map_of payload k = map_of (h ! data) k)
         \<and> map_of payload ''exp'' = Some (PInt (timegm (now + t)))
         \<and> (\<forall>now'. jose_validate_others L (timegm now') payload = None \<longrightarrow>
               verify_token L cfg now' tok =
                 (if timegm now' \<le> timegm (now + t) then Inr (Some payload) else Inr None))
         \<and> (\<forall>now'. now' < now + t \<and> jose_validate_others L (timegm now') payload = None \<longrightarrow>
               verify_token L cfg now' tok = Inr (Some payload))
         \<and> (\<forall>now'. now + t + 1000000 \<le> now'
                    \<and> jose_validate_others L (timegm now') payload = None \<longrightarrow>
               verify_token L cfg now' tok = Inr None)
         \<and> (\<forall>now' p. timegm (now + t) < timegm now' \<longrightarrow>
               verify_token L cfg now' tok \<noteq> Inr (Some p))"
proof -
  let ?e = "timegm (now + t)"
  let ?payload = "encoded_claims (h ! data) ?e"
  let ?tok = "JWS [(''alg'', PStr (algorithm cfg)), (''typ'', PStr ''JWT'')] (PDict ?payload)
                  (HMACSig (algorithm cfg) (secret_key cfg))"
  have sup: "alg_supported L (algorithm cfg)"
    using assms(1) by (simp add: alg_supported_def)
  have issued: "snd (create_access_token L cfg now h data (Some t)) = Inr ?tok"
    using assms(4-7) sup jose_sign_hmac[OF assms(1,2)]
    by (simp add: create_access_token_given datetime_add_def jose_encode_result)
  have keys: "\<forall>k. k \<noteq> ''exp'' \<and> k \<noteq> ''iat'' \<and> k \<noteq> ''nbf'' \<longrightarrow>
                map_of ?payload k = map_of (h ! data) k"
    by (simp add: map_of_encoded_claims_other)
  have exp: "map_of ?payload ''exp'' = Some (PInt ?e)"
    by (rule map_of_encoded_claims_exp)
  have v: "\<forall>now'. jose_validate_others L (timegm now') ?payload = None \<longrightarrow>
               verify_token L cfg now' ?tok =
                 (if timegm now' \<le> ?e then Inr (Some ?payload) else Inr None)"
    using verify_issued[OF assms(1,2) exp] by blast
  have before: "\<forall>now'. now' < now + t \<and> jose_validate_others L (timegm now') ?payload = None
                  \<longrightarrow> verify_token L cfg now' ?tok = Inr (Some ?payload)"
    using v timegm_mono[of _ "now + t"] by simp
  have after: "\<forall>now'. now + t + 1000000 \<le> now'
                 \<and> jose_validate_others L (timegm now') ?payload = None
                  \<longrightarrow> verify_token L cfg now' ?tok = Inr None"
  proof (intro allI impI)
    fix now' :: int
    assume a: "now + t + 1000000 \<le> now'
                 \<and> jose_validate_others L (timegm now') ?payload = None"
    then have "?e + 1 \<le> timegm now'"
      using timegm_mono[of "now + t + 1000000" now'] by (simp add: timegm_next_second)
    with a show "verify_token L cfg now' ?tok = Inr None" using v by simp
  qed
  have never: "\<forall>now' p. ?e < timegm now' \<longrightarrow> verify_token L cfg now' ?tok \<noteq> Inr (Some p)"
    using verify_expired_never_succeeds[OF exp] by blast
  show ?thesis using issued keys exp v before after never by blast
qed

theorem verify_token_create_access_token_witness:
  "algorithm default_settings \<in> set hmac_algorithms
   \<and> hmac_secret_ok lib0 (secret_key default_settings)
   \<and> (0::nat) < length [[(''sub'', PStr ''u1''), (''iat'', PInt 10)]]
   \<and> (0::int) < 1000000
   \<and> datetime_min \<le> 10200000 + 1000000 \<and> 10200000 + 1000000 \<le> datetime_max
   \<and> json_ok (PDict (encoded_claims ([[(''sub'', PStr ''u1''), (''iat'', PInt 10)]] ! 0)
                 (timegm (10200000 + 1000000))))
   \<and> (\<exists>tok payload.
         snd (create_access_token lib0 default_settings 10200000
                [[(''sub'', PStr ''u1''), (''iat'', PInt 10)]] 0 (Some 1000000)) = Inr tok
       \<and> map_of payload ''sub'' = Some (PStr ''u1'')
       \<and> verify_token lib0 default_settings 10900000 tok = Inr (Some payload)
       \<and> verify_token lib0 default_settings 12200000 tok = Inr None)"
proof -
  let ?c = "[(''sub'', PStr ''u1''), (''iat'', PInt 10)]"
  have h1: "algorithm default_settings \<in> set hmac_algorithms"
    by (simp add: default_settings_def hmac_algorithms_def)
  have h2: "hmac_secret_ok lib0 (secret_key default_settings)" by (simp add: lib0_def)
  have h3: "(0::nat) < length [?c]" by simp
  have h4: "(0::int) < 1000000" by simp
  have h5: "datetime_min \<le> 10200000 + 1000000" "10200000 + 1000000 \<le> datetime_max"
    by (simp_all add: datetime_min_def datetime_max_def)
  have enc: "encoded_claims ?c e = [(''sub'', PStr ''u1''), (''iat'', PInt 10), (''exp'', PInt e)]"
    for e by (simp add: encoded_claims_def to_intdate_def)
  have h6: "json_ok (PDict (encoded_claims ([?c] ! 0) (timegm (10200000 + 1000000))))"
    by (simp add: enc)
  have o: "jose_validate_others lib0 n (encoded_claims ([?c] ! 0) e) = None" for n e
    by (simp add: enc jose_validate_others_def validate_iat_def validate_nbf_def
        validate_aud_def validate_sub_def validate_jti_def validate_at_hash_def py_int_def
        is_str_def)
  obtain tok payload where
      i: "snd (create_access_token lib0 default_settings 10200000 [?c] 0 (Some 1000000)) = Inr tok"
    and p: "payload = encoded_claims ([?c] ! 0) (timegm (10200000 + 1000000))"
    and k: "\<forall>k. k \<noteq> ''exp'' \<and> k \<noteq> ''iat'' \<and> k \<noteq> ''nbf'' \<longrightarrow>
              map_of payload k = map_of ([?c] ! 0) k"
    and b: "\<forall>now'. now' < 10200000 + 1000000
              \<and> jose_validate_others lib0 (timegm now') payload = None \<longrightarrow>
              verify_token lib0 default_settings now' tok = Inr (Some payload)"
    and a: "\<forall>now'. 10200000 + 1000000 + 1000000 \<le> now'
              \<and> jose_validate_others lib0 (timegm now') payload = None \<longrightarrow>
              verify_token lib0 default_settings now' tok = Inr None"
    using verify_token_create_access_token[OF h1 h2 h3 h4 h5 h6] by blast
  have "map_of payload ''sub'' = Some (PStr ''u1'')" using k by simp
  moreover have "verify_token lib0 default_settings 10900000 tok = Inr (Some payload)"
    using b o p by simp
  moreover have "verify_token lib0 default_settings 12200000 tok = Inr None"
    using a o p by simp
  ultimately show ?thesis using h1 h2 h3 h4 h5 h6 i by blast
qed

theorem verify_token_within_expiry_second_counterexample:
  "snd (create_access_token lib0 default_settings 10200000 [[(''sub'', PStr ''u1'')]] 0
          (Some 1000000))
     = Inr (JWS [(''alg'', PStr ''HS256''), (''typ'', PStr ''JWT'')]
                (PDict [(''sub'', PStr ''u1''), (''exp'', PInt 11)])
                (HMACSig ''HS256'' ''your-secret-key-here''))
   \<and> (10200000 + 1000000 :: int) < 11500000
   \<and> verify_token lib0 default_settings 11500000
        (JWS [(''alg'', PStr ''HS256''), (''typ'', PStr ''JWT'')]
             (PDict [(''sub'', PStr ''u1''), (''exp'', PInt 11)])
             (HMACSig ''HS256'' ''your-secret-key-here''))
       = Inr (Some [(''sub'', PStr ''u1''), (''exp'', PInt 11)])"
  by (simp add: create_access_token_def dict_copy_def dict_setitem_def jose_encode_def
        convert_time_claim_def hmac_algorithms_def default_settings_def timegm_def
        datetime_add_def datetime_min_def datetime_max_def alg_supported_def jose_sign_def
        lib0_def verify_token_def jose_decode_def jose_verify_def jose_validate_claims_def
        validate_iat_def validate_nbf_def validate_exp_def validate_aud_def validate_sub_def
        validate_jti_def validate_at_hash_def py_int_def is_str_def Let_def)

text \<open>
  Claim C8, as amended. For a plaintext and a password without a NUL byte and of at most
  72 bytes, \<open>verify_password\<close> against a bcrypt hash of the password (the one that
  \<open>get_password_hash\<close> returns, or one with any other salt) returns a boolean and does not
  raise: true when the plaintext is the hashed password, false on any mismatch. On a stored
  value that is no bcrypt hash it does not return false: the \<^verbatim>\<open>ValueError\<close> of the library
  propagates, because the function has no handler.
\<close>

theorem verify_password_result:
  "(bcrypt_plain plain \<and> bcrypt_plain password \<longrightarrow>
      (\<exists>h. get_password_hash L salt password = Inr h
           \<and> verify_password L plain h = Inr (plain = password))
    \<and> verify_password L plain (BcryptHash salt' password) = Inr (plain = password))
   \<and> verify_password L plain (NotAHash s) = Inl ValueError"
  by (simp add: verify_password_def pwd_context_verify_def get_password_hash_def
      pwd_context_hash_def)

theorem verify_password_result_witness:
  "bcrypt_plain ''secret'' \<and> bcrypt_plain ''other''
   \<and> get_password_hash lib0 ''salt'' ''secret'' = Inr (BcryptHash ''salt'' ''secret'')
   \<and> verify_password lib0 ''secret'' (BcryptHash ''salt'' ''secret'') = Inr True
   \<and> verify_password lib0 ''secret'' (BcryptHash ''salt'' ''other'') = Inr False"
proof -
  have p: "bcrypt_plain ''secret''" "bcrypt_plain ''other''"
    by (simp_all add: bcrypt_plain_def utf8_length_def)
  have h: "get_password_hash lib0 ''salt'' ''secret'' = Inr (BcryptHash ''salt'' ''secret'')"
    by (simp add: get_password_hash_def pwd_context_hash_def p)
  show ?thesis
    using verify_password_result[where plain = "''secret''" and password = "''secret''"
        and L = lib0 and salt = "''salt''" and salt' = "''salt''"]
      verify_password_result[where plain = "''secret''" and password = "''other''"
        and L = lib0 and salt = "''salt''" and salt' = "''salt''"]
      p h
    by simp
qed

theorem verify_password_malformed_hash_counterexample:
  "verify_password lib0 ''secret'' (NotAHash ''not-a-bcrypt-hash'') = Inl ValueError
   \<and> verify_password lib0 ''secret'' (NotAHash ''not-a-bcrypt-hash'') \<noteq> Inr False"
  by (simp add: verify_password_def pwd_context_verify_def)

text \<open>
  Claim C1 concerns the resolver \<open>get_current_user\<close> of \<^verbatim>\<open>auth.py\<close>. It builds the user from the
  claims of the token and looks nothing up, as the claim says, but the call of \<^verbatim>\<open>User\<close> passes
  neither \<^verbatim>\<open>created_at\<close> nor \<^verbatim>\<open>updated_at\<close>, which the model class requires. The construction
  therefore raises, and \<^verbatim>\<open>except Exception\<close> turns that into the 401: the resolver rejects
  every token, the valid ones included.
\<close>

lemma User_requires_created_at:
  "map_of kw ''created_at'' = None \<Longrightarrow> User L kw = Inl ValidationError"
  by (simp add: User_def required_datetime_def split: option.splits)

lemma get_current_user_always_401:
  "get_current_user L cfg now creds = Inl credentials_exception"
proof -
  have "\<exists>e. get_current_user_try L cfg now creds = Inl e"
    by (auto simp: get_current_user_try_def User_requires_created_at
        split: sum.splits option.splits)
  then show ?thesis by (auto simp: get_current_user_def)
qed

text \<open>
  The code at a token that \<open>create_access_token\<close> issued for
  \<^verbatim>\<open>{"sub": "u1", "email": "u1@example.com", "name": "User One"}\<close>, one second after issuance:
  \<open>verify_token\<close> returns its claims, \<^verbatim>\<open>sub\<close> is present, and \<open>get_current_user\<close> raises the 401
  all the same (claim C1 says it returns the user).
\<close>

theorem get_current_user_valid_token_rejected:
  "snd (create_access_token lib0 default_settings 0
          [[(''sub'', PStr ''u1''), (''email'', PStr ''u1@example.com''), (''name'', PStr ''User One'')]]
          0 None)
     = Inr (JWS [(''alg'', PStr ''HS256''), (''typ'', PStr ''JWT'')]
                (PDict [(''sub'', PStr ''u1''), (''email'', PStr ''u1@example.com''),
                        (''name'', PStr ''User One''), (''exp'', PInt 1800)])
                (HMACSig ''HS256'' ''your-secret-key-here''))
   \<and> verify_token lib0 default_settings 1000000
        (JWS [(''alg'', PStr ''HS256''), (''typ'', PStr ''JWT'')]
                (PDict [(''sub'', PStr ''u1''), (''email'', PStr ''u1@example.com''),
                        (''name'', PStr ''User One''), (''exp'', PInt 1800)])
                (HMACSig ''HS256'' ''your-secret-key-here''))
       = Inr (Some [(''sub'', PStr ''u1''), (''email'', PStr ''u1@example.com''),
                        (''name'', PStr ''User One''), (''exp'', PInt 1800)])
   \<and> get_current_user lib0 default_settings 1000000
        \<lparr> scheme = ''Bearer'',
          credentials = JWS [(''alg'', PStr ''HS256''), (''typ'', PStr ''JWT'')]
                (PDict [(''sub'', PStr ''u1''), (''email'', PStr ''u1@example.com''),
                        (''name'', PStr ''User One''), (''exp'', PInt 1800)])
                (HMACSig ''HS256'' ''your-secret-key-here'') \<rparr>
       = Inl (HTTPException 401 ''Could not validate credentials'' [(''WWW-Authenticate'', ''Bearer'')])"
  by (simp add: create_access_token_def dict_copy_def dict_setitem_def jose_encode_def
        convert_time_claim_def hmac_algorithms_def default_settings_def timegm_def
        timedelta_minutes_def timedelta_min_def timedelta_max_def datetime_add_def
        datetime_min_def datetime_max_def alg_supported_def jose_sign_def lib0_def
        verify_token_def jose_decode_def jose_verify_def jose_validate_claims_def
        validate_iat_def
        validate_nbf_def validate_exp_def validate_aud_def validate_sub_def validate_jti_def
        validate_at_hash_def py_int_def is_str_def Let_def
        get_current_user_def get_current_user_try_def get_def get_default_def
        User_def required_str_def required_datetime_def optional_str_def dict_or_empty_def
        credentials_exception_def)

section \<open>Properties of the federated verifier\<close>

text \<open>
  Claim C5 concerns \<open>get_user_from_token\<close>. For the payload \<^verbatim>\<open>{"oid": "abc"}\<close> the keyword
  arguments it computes are the ones the claim describes (the identifier \<^verbatim>\<open>abc\<close>, the
  placeholder address \<^verbatim>\<open>abc@b2c.local\<close>), but the call of \<^verbatim>\<open>User\<close> again lacks \<^verbatim>\<open>created_at\<close> and
  \<^verbatim>\<open>updated_at\<close>, so it raises and the function answers with the 401 (claim C5 says it
  returns the identity). The same holds for every payload.
\<close>

lemma get_user_from_token_always_401:
  "get_user_from_token L payload = Inl (HTTPException 401 ''Invalid token payload'' [])"
proof -
  have "\<And>kw. get_user_from_token_kwargs L payload = Inr kw \<Longrightarrow> map_of kw ''created_at'' = None"
    by (auto simp: get_user_from_token_kwargs_def Let_def split: sum.splits if_splits)
  then have "\<exists>e. get_user_from_token_try L payload = Inl e"
    by (auto simp: get_user_from_token_try_def User_requires_created_at split: sum.splits)
  then show ?thesis by (auto simp: get_user_from_token_def)
qed

text \<open>
  The code at the payload \<^verbatim>\<open>{"oid": "abc"}\<close> of claim C5: the keyword arguments with the
  placeholder address, and the 401 that the function raises instead of returning a user.
\<close>

theorem get_user_from_token_oid_only_rejected:
  "get_user_from_token_kwargs lib0 [(''oid'', PStr ''abc'')]
     = Inr [(''id'', PStr ''abc''), (''email'', PStr ''abc@b2c.local''),
            (''name'', PStr ''B2C User''), (''householdId'', PNone),
            (''preferences'', PDict [(''notificationDays'', PInt 3), (''theme'', PStr ''dark''),
                                     (''units'', PStr ''imperial'')])]
   \<and> get_user_from_token lib0 [(''oid'', PStr ''abc'')]
     = Inl (HTTPException 401 ''Invalid token payload'' [])"
  by (simp add: get_user_from_token_def get_user_from_token_try_def
      get_user_from_token_kwargs_def get_def get_default_def py_or_def str_concat_def
      method_strip_def py_strip_def is_space_def py_format_def default_preferences_def
      User_def required_str_def required_datetime_def optional_str_def dict_or_empty_def
      Let_def lib0_def)

text \<open>
  The method \<open>verify_token\<close> of \<^verbatim>\<open>auth_b2c.py\<close> is synchronous and calls the coroutine function
  \<open>get_jwks\<close> without \<^verbatim>\<open>await\<close>. The call gives a coroutine object, the body of \<open>get_jwks\<close>
  does not run, and \<^verbatim>\<open>jwks.get\<close> raises an \<^verbatim>\<open>AttributeError\<close>, which \<^verbatim>\<open>except Exception\<close> turns
  into the 401 with the detail \<^verbatim>\<open>Token verification failed\<close>. So the method fails on every
  token, and leaves the object as it was.
\<close>

lemma get_unverified_header_error:
  "get_unverified_header tok = Inl e \<Longrightarrow> e = DecodeError \<or> e = InvalidTokenError"
  by (auto simp: get_unverified_header_def split: token.splits option.splits if_splits)

lemma b2c_verify_token_fails:
  "b2c_verify_token L self now tok =
     (self, Inl (HTTPException 401
                   (case get_unverified_header tok of
                      Inl e \<Rightarrow> ''Invalid token''
                    | Inr header \<Rightarrow> ''Token verification failed'') []))"
proof (cases "get_unverified_header tok")
  case (Inl e)
  then have "b2c_verify_token_except e = HTTPException 401 ''Invalid token'' []"
    using get_unverified_header_error[OF Inl] by (auto simp: b2c_verify_token_except_def)
  with Inl show ?thesis
    by (simp add: b2c_verify_token_def b2c_verify_token_try_def)
next
  case (Inr header)
  then show ?thesis
    by (simp add: b2c_verify_token_def b2c_verify_token_try_def get_jwks_unawaited_def
        method_get_def b2c_verify_token_except_def)
qed

lemma get_unverified_header_JWS:
  "get_unverified_header (JWS header payload sg) = get_unverified_header (JWS header payload' sg')"
  by (simp add: get_unverified_header_def)

text \<open>
  Claim C3 concerns the key lookup of \<open>verify_token\<close>. The code at the token with the key
  identifier \<^verbatim>\<open>k1\<close> and an object whose cache is empty, where the discovery endpoint serves
  a key set that holds only \<^verbatim>\<open>k2\<close>: no request is sent and nothing is cached (claim C3 says
  the key set is fetched once and cached), and the failure is that of the catch-all clause,
  not the \<^verbatim>\<open>Invalid token\<close> of a key identifier that is absent from the key set. An awaited
  run of \<open>get_jwks\<close> on the same object sends the one request and caches the key set. The
  last two lines say the same of every token and every state of the object: nothing is
  fetched or cached, and the result is a 401.
\<close>

theorem b2c_verify_token_cold_cache_no_fetch:
  "requests_sent (AzureADB2CAuth default_settings) = 0
   \<and> jwks_cache (AzureADB2CAuth default_settings) = PNone
   \<and> b2c_verify_token lib0 (AzureADB2CAuth default_settings) 0
          (JWS [(''alg'', PStr ''RS256''), (''kid'', PStr ''k1'')] (PDict []) (RSASig ''N1''))
       = (AzureADB2CAuth default_settings,
          Inl (HTTPException 401 ''Token verification failed'' []))
   \<and> fst (get_jwks (\<lambda>url n. Body (PDict [(''keys'', PList [PDict [(''kid'', PStr ''k2''),
             (''kty'', PStr ''RSA''), (''n'', PStr ''N2'')]])])) (AzureADB2CAuth default_settings))
       = (AzureADB2CAuth default_settings)
           \<lparr> jwks_cache := PDict [(''keys'', PList [PDict [(''kid'', PStr ''k2''),
                (''kty'', PStr ''RSA''), (''n'', PStr ''N2'')]])],
             requests_sent := 1, fetches_stored := 1 \<rparr>
   \<and> fst (b2c_verify_token L self now tok) = self
   \<and> (\<exists>detail. snd (b2c_verify_token L self now tok) = Inl (HTTPException 401 detail []))"
  by (simp add: b2c_verify_token_fails get_unverified_header_def is_str_def
      get_jwks_def AzureADB2CAuth_def)

text \<open>
  Claim C4. Every failure of \<open>verify_token\<close> is a 401 whose detail is one of two fixed
  strings, \<^verbatim>\<open>Invalid token\<close> or \<^verbatim>\<open>Token verification failed\<close>, and never
  \<^verbatim>\<open>Token has expired\<close>. For a token that is a JWS the error depends on the header only: not
  on the claims, not on the signature, not on the clock, the state of the object or the
  library. So the error of a token that fails the signature, audience, issuer or expiry
  check tells neither which check failed nor anything of the claims. (These checks are
  not reached in the code as it is written, see above, and the clause that answers an
  \<^verbatim>\<open>ExpiredSignatureError\<close> with \<^verbatim>\<open>Token has expired\<close> never runs.)
\<close>

theorem b2c_verify_token_error_generic:
  "(\<exists>detail. snd (b2c_verify_token L self now tok) = Inl (HTTPException 401 detail [])
       \<and> (detail = ''Invalid token'' \<or> detail = ''Token verification failed''))
   \<and> snd (b2c_verify_token L self now tok) \<noteq> Inl (HTTPException 401 ''Token has expired'' [])
   \<and> snd (b2c_verify_token L self now (JWS header payload sg))
       = snd (b2c_verify_token L' self' now' (JWS header payload' sg'))"
proof -
  have 1: "\<exists>detail. snd (b2c_verify_token L self now tok) = Inl (HTTPException 401 detail [])
       \<and> (detail = ''Invalid token'' \<or> detail = ''Token verification failed'')"
    by (cases "get_unverified_header tok") (simp_all add: b2c_verify_token_fails)
  then have 2: "snd (b2c_verify_token L self now tok) \<noteq> Inl (HTTPException 401 ''Token has expired'' [])"
    by auto
  have 3: "snd (b2c_verify_token L self now (JWS header payload sg))
       = snd (b2c_verify_token L' self' now' (JWS header payload' sg'))"
    by (simp add: b2c_verify_token_fails get_unverified_header_JWS[of header payload sg payload' sg'])
  show ?thesis using 1 2 3 by blast
qed

text \<open>The cache of the key set, under awaited calls of \<open>get_jwks\<close>.\<close>

lemma get_jwks_populated:
  "jwks_cache self \<noteq> PNone \<Longrightarrow> get_jwks net self = (self, Inr (jwks_cache self))"
  by (simp add: get_jwks_def)

lemma get_jwks_calls_populated:
  "jwks_cache self \<noteq> PNone \<Longrightarrow> get_jwks_calls n net self = self"
  by (induction n) (simp_all add: get_jwks_populated)

lemma get_jwks_failed:
  assumes "jwks_cache self = PNone" "\<forall>j. net (jwks_url self) (requests_sent self) \<noteq> Body j"
  shows "get_jwks net self =
           (self\<lparr> requests_sent := Suc (requests_sent self) \<rparr>,
            Inl (HTTPException 500 ''Authentication service unavailable'' []))"
  using assms by (auto simp: get_jwks_def split: response.splits)

lemma get_jwks_url [simp]: "jwks_url (fst (get_jwks net self)) = jwks_url self"
  by (simp add: get_jwks_def split: response.splits)

lemma get_jwks_unpopulated_requests:
  "jwks_cache self = PNone \<Longrightarrow>
     requests_sent (fst (get_jwks net self)) = Suc (requests_sent self)"
  by (simp add: get_jwks_def split: response.splits)

lemma get_jwks_calls_stored:
  assumes "\<forall>i. net (jwks_url self) i \<noteq> Body PNone"
  shows "fetches_stored (get_jwks_calls n net self) \<le> fetches_stored self + 1"
  using assms
proof (induction n arbitrary: self)
  case 0
  then show ?case by simp
next
  case (Suc n)
  show ?case
  proof (cases "jwks_cache self = PNone")
    case False
    then have "get_jwks_calls (Suc n) net self = self"
      by (rule get_jwks_calls_populated)
    then show ?thesis by (simp only:)
  next
    case True
    show ?thesis
    proof (cases "net (jwks_url self) (requests_sent self)")
      case (Body j)
      with Suc.prems have "j \<noteq> PNone" by metis
      with True Body have "jwks_cache (fst (get_jwks net self)) \<noteq> PNone"
        and "fetches_stored (fst (get_jwks net self)) = fetches_stored self + 1"
        by (simp_all add: get_jwks_def)
      then show ?thesis by (simp add: get_jwks_calls_populated)
    next
      case RequestFailed
      with True have f: "fetches_stored (fst (get_jwks net self)) = fetches_stored self"
        by (simp add: get_jwks_def)
      have "\<forall>i. net (jwks_url (fst (get_jwks net self))) i \<noteq> Body PNone"
        using Suc.prems by simp
      from Suc.IH[OF this] f show ?thesis by simp
    next
      case ErrorStatus
      with True have f: "fetches_stored (fst (get_jwks net self)) = fetches_stored self"
        by (simp add: get_jwks_def)
      have "\<forall>i. net (jwks_url (fst (get_jwks net self))) i \<noteq> Body PNone"
        using Suc.prems by simp
      from Suc.IH[OF this] f show ?thesis by simp
    next
      case BodyNotJSON
      with True have f: "fetches_stored (fst (get_jwks net self)) = fetches_stored self"
        by (simp add: get_jwks_def)
      have "\<forall>i. net (jwks_url (fst (get_jwks net self))) i \<noteq> Body PNone"
        using Suc.prems by simp
      from Suc.IH[OF this] f show ?thesis by simp
    qed
  qed
qed

text \<open>
  Claim C6, as amended. A populated cache is returned as it is: no request is sent and
  nothing is modified, in one call and in any sequence of calls. An unpopulated cache makes
  every call send a request; a failed fetch raises the 500 and leaves the cache unpopulated,
  so that the next call fetches again. Provided the endpoint never answers with the JSON
  value \<^verbatim>\<open>null\<close>, a sequence of calls stores at most one fetched key set. (As stated, the claim
  fails: a body \<^verbatim>\<open>null\<close> is stored as \<open>None\<close>, which is the mark of an unpopulated cache.)
\<close>

theorem get_jwks_cache_discipline:
  "(jwks_cache self \<noteq> PNone \<longrightarrow>
       get_jwks net self = (self, Inr (jwks_cache self))
     \<and> get_jwks_calls n net self = self)
   \<and> (jwks_cache self = PNone \<longrightarrow>
       requests_sent (fst (get_jwks net self)) = Suc (requests_sent self))
   \<and> (jwks_cache self = PNone \<and> (\<forall>j. net (jwks_url self) (requests_sent self) \<noteq> Body j) \<longrightarrow>
       get_jwks net self =
         (self\<lparr> requests_sent := Suc (requests_sent self) \<rparr>,
          Inl (HTTPException 500 ''Authentication service unavailable'' [])))
   \<and> ((\<forall>i. net (jwks_url self) i \<noteq> Body PNone) \<longrightarrow>
       fetches_stored (get_jwks_calls n net self) \<le> fetches_stored self + 1)"
  using get_jwks_populated get_jwks_calls_populated get_jwks_unpopulated_requests
    get_jwks_failed get_jwks_calls_stored
  by blast

theorem get_jwks_null_body_counterexample:
  "fetches_stored (AzureADB2CAuth default_settings) = 0
   \<and> fetches_stored (get_jwks_calls 2 (\<lambda>url i. Body PNone) (AzureADB2CAuth default_settings)) = 2
   \<and> requests_sent (get_jwks_calls 2 (\<lambda>url i. Body PNone) (AzureADB2CAuth default_settings)) = 2"
  by (simp add: numeral_2_eq_2 get_jwks_def AzureADB2CAuth_def)

theorem get_jwks_cache_discipline_witness:
  "jwks_cache (AzureADB2CAuth default_settings) = PNone
   \<and> get_jwks (\<lambda>url i. if i = 0 then ErrorStatus else Body (PDict [(''keys'', PList [])]))
        (AzureADB2CAuth default_settings)
       = ((AzureADB2CAuth default_settings)\<lparr> requests_sent := 1 \<rparr>,
          Inl (HTTPException 500 ''Authentication service unavailable'' []))
   \<and> requests_sent (get_jwks_calls 3
          (\<lambda>url i. if i = 0 then ErrorStatus else Body (PDict [(''keys'', PList [])]))
          (AzureADB2CAuth default_settings)) = 2
   \<and> fetches_stored (get_jwks_calls 3
          (\<lambda>url i. if i = 0 then ErrorStatus else Body (PDict [(''keys'', PList [])]))
          (AzureADB2CAuth default_settings)) \<le> 1
   \<and> jwks_cache (get_jwks_calls 3
          (\<lambda>url i. if i = 0 then ErrorStatus else Body (PDict [(''keys'', PList [])]))
          (AzureADB2CAuth default_settings)) = PDict [(''keys'', PList [])]
   \<and> get_jwks (\<lambda>url i. RequestFailed)
        ((AzureADB2CAuth default_settings)\<lparr> jwks_cache := PDict [(''keys'', PList [])] \<rparr>)
       = ((AzureADB2CAuth default_settings)\<lparr> jwks_cache := PDict [(''keys'', PList [])] \<rparr>,
          Inr (PDict [(''keys'', PList [])]))"
proof -
  let ?net = "\<lambda>(url::string) (i::nat). if i = 0 then ErrorStatus else Body (PDict [(''keys'', PList [])])"
  let ?S0 = "AzureADB2CAuth default_settings"
  let ?S1 = "?S0\<lparr> jwks_cache := PDict [(''keys'', PList [])] \<rparr>"
  have c: "jwks_cache ?S0 = PNone" "requests_sent ?S0 = 0" "fetches_stored ?S0 = 0"
    by (simp_all add: AzureADB2CAuth_def)
  have f: "\<forall>j. ?net (jwks_url ?S0) (requests_sent ?S0) \<noteq> Body j"
    by (simp add: c)
  have nn: "\<forall>i. ?net (jwks_url ?S0) i \<noteq> Body PNone" by simp
  have p: "jwks_cache ?S1 \<noteq> PNone" by simp
  have run: "requests_sent (get_jwks_calls 3 ?net ?S0) = 2"
            "jwks_cache (get_jwks_calls 3 ?net ?S0) = PDict [(''keys'', PList [])]"
    by (simp_all add: numeral_3_eq_3 get_jwks_def AzureADB2CAuth_def)
  show ?thesis
    using get_jwks_cache_discipline[of ?S0 ?net 3] get_jwks_cache_discipline[of ?S1 "\<lambda>url i. RequestFailed" 0]
      c f nn p run
    by simp
qed

lemma b2c_reraise_HTTP: "is_HTTPException (b2c_reraise e)"
  by (simp add: b2c_reraise_def)

lemma b2c_get_current_user_errors:
  "b2c_get_current_user L self now creds = (self', Inl e) \<Longrightarrow> is_HTTPException e"
  by (auto simp: b2c_get_current_user_def b2c_reraise_HTTP split: prod.splits sum.splits)

text \<open>
  Claim C9. \<open>get_optional_user\<close> never raises: its result is \<open>None\<close> when there are no
  credentials and whenever \<open>get_current_user\<close> fails (every exception that resolver lets out
  is an \<open>HTTPException\<close>, which is caught), and the resolved user otherwise. In particular
  it is \<open>None\<close> for missing credentials and for a malformed token.
\<close>

theorem get_optional_user_never_raises:
  "snd (get_optional_user L self now creds_opt) =
     Inr (case creds_opt of
            None \<Rightarrow> None
          | Some creds \<Rightarrow>
              (case snd (b2c_get_current_user L self now creds) of
                 Inl e \<Rightarrow> None
               | Inr u \<Rightarrow> Some u))
   \<and> get_optional_user L self now None = (self, Inr None)
   \<and> snd (get_optional_user L self now (Some \<lparr> scheme = sch, credentials = NotJWS s \<rparr>)) = Inr None"
proof -
  have 1: "snd (get_optional_user L self now creds_opt) =
     Inr (case creds_opt of
            None \<Rightarrow> None
          | Some creds \<Rightarrow>
              (case snd (b2c_get_current_user L self now creds) of
                 Inl e \<Rightarrow> None
               | Inr u \<Rightarrow> Some u))" for creds_opt
    by (auto simp: get_optional_user_def dest: b2c_get_current_user_errors
        split: option.splits prod.splits sum.splits)
  have 2: "get_optional_user L self now None = (self, Inr None)"
    by (simp add: get_optional_user_def)
  have "\<exists>e. snd (b2c_get_current_user L self now \<lparr> scheme = sch, credentials = NotJWS s \<rparr>) = Inl e"
    by (simp add: b2c_get_current_user_def b2c_verify_token_fails)
  then have 3: "snd (get_optional_user L self now (Some \<lparr> scheme = sch, credentials = NotJWS s \<rparr>)) = Inr None"
    by (auto simp: 1)
  show ?thesis using 1 2 3 by blast
qed

end
